theory Spec2Isabelle
  imports Complex_Main "HOL-Library.AList"
begin

section \<open>The mesh tool server: commands over a registry of named meshes\<close>

text \<open>
  The program is \<^verbatim>\<open>src/MeshTool/mesh_tool.py\<close>: a dispatcher
  (\<^verbatim>\<open>process_command\<close>) over a dictionary \<^verbatim>\<open>self.meshes\<close> from names to
  mesh objects of the trimesh library. Every geometric computation is a call into that
  library, which is not part of the repository: the library is a parameter of the model
  (the record \<open>lib\<close> below), and each of its calls may raise.

  Mesh objects are mutable Python objects, so the model has an explicit store: the registry
  maps a name to an address, and the heap holds the object at each address. A library method
  that works in place is an update of the heap at the receiver's address; a library call
  that returns a mesh gives a new object.

  The websocket loop, the JSON decoding and the start of the server are outside the model:
  a command is its decoded object, a session is a list of commands.
\<close>

subsection \<open>Decoded JSON values, Python exceptions, responses\<close>

text \<open>
  A float is modelled by the real number it denotes (rounding, NaN and infinities are left
  out). A decoded JSON object is an association list with its first binding found.
\<close>

datatype json =
    JNull
  | JBool bool
  | JInt int
  | JFloat real
  | JStr string
  | JArr "json list"
  | JObj "(string \<times> json) list"

type_synonym pdict = "(string \<times> json) list"

text \<open>\<open>Exception\<close> stands for every class the code does not tell apart.\<close>

datatype exn =
    ImportError string
  | TypeError string
  | AttributeError string
  | KeyError string
  | Exception string

fun str_exn :: "exn \<Rightarrow> string" where
  "str_exn (ImportError m) = m"
| "str_exn (TypeError m) = m"
| "str_exn (AttributeError m) = m"
| "str_exn (KeyError m) = m"
| "str_exn (Exception m) = m"

type_synonym response = "(string \<times> json) list"

definition failure :: "string \<Rightarrow> response" where
  "failure msg = [(''success'', JBool False), (''error'', JStr msg)]"

definition is_success :: "response \<Rightarrow> bool" where
  "is_success r = (map_of r ''success'' = Some (JBool True))"

definition error_of :: "response \<Rightarrow> json option" where
  "error_of r = map_of r ''error''"

text \<open>\<^verbatim>\<open>d.get(k, default)\<close> and \<^verbatim>\<open>k in d\<close> on a decoded object.\<close>

definition dict_get :: "pdict \<Rightarrow> string \<Rightarrow> json \<Rightarrow> json" where
  "dict_get d k dflt = (case map_of d k of None \<Rightarrow> dflt | Some v \<Rightarrow> v)"

definition has_key :: "pdict \<Rightarrow> string \<Rightarrow> bool" where
  "has_key d k = (map_of d k \<noteq> None)"

definition quoted :: "string \<Rightarrow> string" where
  "quoted s = CHR 0x27 # s @ [CHR 0x27]"

fun type_name :: "json \<Rightarrow> string" where
  "type_name JNull = ''NoneType''"
| "type_name (JBool b) = ''bool''"
| "type_name (JInt i) = ''int''"
| "type_name (JFloat r) = ''float''"
| "type_name (JStr s) = ''str''"
| "type_name (JArr xs) = ''list''"
| "type_name (JObj kv) = ''dict''"

definition digit_char :: "nat \<Rightarrow> char" where
  "digit_char d = ''0123456789'' ! d"

fun str_nat :: "nat \<Rightarrow> string" where
  "str_nat n = (if n < 10 then [digit_char n] else str_nat (n div 10) @ [digit_char (n mod 10)])"

declare str_nat.simps [simp del]

text \<open>
  \<^verbatim>\<open>str(v)\<close>, as an f-string formats a value. The text of a float, a list or a dict is
  Python's \<^verbatim>\<open>repr\<close>, which is the parameter \<open>repr\<close>.
\<close>

fun py_str :: "(json \<Rightarrow> string) \<Rightarrow> json \<Rightarrow> string" where
  "py_str repr JNull = ''None''"
| "py_str repr (JBool b) = (if b then ''True'' else ''False'')"
| "py_str repr (JInt i) = (if i < 0 then CHR ''-'' # str_nat (nat (- i)) else str_nat (nat i))"
| "py_str repr (JStr s) = s"
| "py_str repr v = repr v"

subsection \<open>Dictionary keys\<close>

text \<open>
  A dictionary key is a hashable value, and keys are compared with \<^verbatim>\<open>==\<close>:
  \<^verbatim>\<open>True\<close>, \<^verbatim>\<open>1\<close> and \<^verbatim>\<open>1.0\<close> are one key. A list or a dict is
  unhashable: testing, storing or reading it as a key raises TypeError.
\<close>

datatype key = KNone | KNum real | KStr string

fun hash_key :: "json \<Rightarrow> exn + key" where
  "hash_key JNull = Inr KNone"
| "hash_key (JBool b) = Inr (KNum (if b then 1 else 0))"
| "hash_key (JInt i) = Inr (KNum (of_int i))"
| "hash_key (JFloat r) = Inr (KNum r)"
| "hash_key (JStr s) = Inr (KStr s)"
| "hash_key v = Inl (TypeError (''unhashable type: '' @ quoted (type_name v)))"

fun json_of_key :: "key \<Rightarrow> json" where
  "json_of_key KNone = JNull"
| "json_of_key (KNum r) = JFloat r"
| "json_of_key (KStr s) = JStr s"

subsection \<open>The state: registry and heap\<close>

text \<open>
  \<open>meshes\<close> is \<^verbatim>\<open>self.meshes\<close>, in insertion order, each name bound to the
  address of its mesh object; \<open>heap\<close> holds the objects, a new one at the end.
\<close>

record 'm state =
  heap :: "'m list"
  meshes :: "(key \<times> nat) list"

definition init_state :: "'m state" where
  "init_state = \<lparr>heap = [], meshes = []\<rparr>"

definition new_obj :: "'m \<Rightarrow> 'm state \<Rightarrow> nat \<times> 'm state" where
  "new_obj m s = (length (heap s), s\<lparr>heap := heap s @ [m]\<rparr>)"

text \<open>A method that changes its receiver: the object at the address is replaced.\<close>

definition in_place :: "('m \<Rightarrow> exn + 'm) \<Rightarrow> nat \<Rightarrow> 'm state \<Rightarrow> exn + 'm state" where
  "in_place f a s =
     (case f (heap s ! a) of
        Inl e \<Rightarrow> Inl e
      | Inr m' \<Rightarrow> Inr (s\<lparr>heap := (heap s)[a := m']\<rparr>))"

text \<open>\<^verbatim>\<open>name in self.meshes\<close>, \<^verbatim>\<open>self.meshes[name]\<close>, \<^verbatim>\<open>self.meshes[name] = mesh\<close>,
  \<^verbatim>\<open>del self.meshes[name]\<close>.\<close>

definition contains :: "json \<Rightarrow> 'm state \<Rightarrow> exn + bool" where
  "contains name s =
     (case hash_key name of
        Inl e \<Rightarrow> Inl e
      | Inr k \<Rightarrow> Inr (map_of (meshes s) k \<noteq> None))"

definition lookup :: "(json \<Rightarrow> string) \<Rightarrow> json \<Rightarrow> 'm state \<Rightarrow> exn + nat" where
  "lookup repr name s =
     (case hash_key name of
        Inl e \<Rightarrow> Inl e
      | Inr k \<Rightarrow>
          (case map_of (meshes s) k of
             None \<Rightarrow> Inl (KeyError (repr name))
           | Some a \<Rightarrow> Inr a))"

definition store :: "json \<Rightarrow> nat \<Rightarrow> 'm state \<Rightarrow> exn + 'm state" where
  "store name a s =
     (case hash_key name of
        Inl e \<Rightarrow> Inl e
      | Inr k \<Rightarrow> Inr (s\<lparr>meshes := AList.update k a (meshes s)\<rparr>))"

definition remove :: "json \<Rightarrow> 'm state \<Rightarrow> exn + 'm state" where
  "remove name s =
     (case hash_key name of
        Inl e \<Rightarrow> Inl e
      | Inr k \<Rightarrow> Inr (s\<lparr>meshes := AList.delete k (meshes s)\<rparr>))"

text \<open>What a client can observe of the registry: each name with the contents of its mesh.\<close>

definition registry :: "'m state \<Rightarrow> (key \<times> 'm) list" where
  "registry s = map (\<lambda>(k, a). (k, heap s ! a)) (meshes s)"

text \<open>Every registered address is allocated, and a name is bound once.\<close>

definition wf :: "'m state \<Rightarrow> bool" where
  "wf s = (list_all (\<lambda>(k, a). a < length (heap s)) (meshes s) \<and> distinct (map fst (meshes s)))"

subsection \<open>The geometry library and the operating system, as parameters\<close>

type_synonym matrix = "real list list"

text \<open>
  What a boolean backend may hand back: \<^verbatim>\<open>None\<close>, a mesh, a scene (an object with
  \<^verbatim>\<open>geometry\<close> and \<^verbatim>\<open>graph\<close>; its geometry is a dictionary from part names to
  meshes, here in its key order), or an object with none of these attributes.
\<close>

datatype 'm pyobj = PyNone | Mesh 'm | Scene "(string \<times> 'm) list" | Opaque

text \<open>
  One field for each call that leaves the repository; a result \<open>Inl e\<close> is the call
  raising \<open>e\<close>. \<open>'m\<close> is the contents of a \<^verbatim>\<open>trimesh.Trimesh\<close>, \<open>'f\<close> a
  manifold3d object. \<open>apply_transform\<close>, \<open>apply_translation\<close> and \<open>process\<close>
  give the new contents of their receiver: trimesh documents all three as working in
  place, \<^verbatim>\<open>process\<close> returning the mesh itself. A call that raises leaves its
  receiver as it was.
\<close>

record ('m, 'f) lib =
  py_repr :: "json \<Rightarrow> string"
  vertices_count :: "'m \<Rightarrow> nat"
  faces_count :: "'m \<Rightarrow> nat"
  bounds_tolist :: "'m \<Rightarrow> exn + json"
  Box :: "json \<Rightarrow> exn + 'm"
  Sphere :: "json \<Rightarrow> json \<Rightarrow> exn + 'm"
  Cylinder :: "json \<Rightarrow> json \<Rightarrow> json \<Rightarrow> exn + 'm"
  Capsule :: "json \<Rightarrow> json \<Rightarrow> exn + 'm"
  reshape44 :: "json \<Rightarrow> exn + matrix"
  apply_transform :: "matrix \<Rightarrow> 'm \<Rightarrow> exn + 'm"
  process :: "'m \<Rightarrow> exn + 'm"
  import_manifold3d :: "exn option"
  manifold_of :: "'m \<Rightarrow> exn + 'f"
  manifold_add :: "'f \<Rightarrow> 'f \<Rightarrow> exn + 'f"
  manifold_sub :: "'f \<Rightarrow> 'f \<Rightarrow> exn + 'f"
  manifold_xor :: "'f \<Rightarrow> 'f \<Rightarrow> exn + 'f"
  manifold_to_trimesh :: "'f \<Rightarrow> exn + 'm"
  blender_exists :: bool
  blender_boolean :: "'m \<Rightarrow> 'm \<Rightarrow> json \<Rightarrow> exn + 'm pyobj"
  mesh_union :: "'m \<Rightarrow> 'm \<Rightarrow> exn + 'm pyobj"
  mesh_difference :: "'m \<Rightarrow> 'm \<Rightarrow> exn + 'm pyobj"
  mesh_intersection :: "'m \<Rightarrow> 'm \<Rightarrow> exn + 'm pyobj"
  concatenate :: "'m \<Rightarrow> 'm \<Rightarrow> exn + 'm"
  extrude_polygon :: "json \<Rightarrow> json \<Rightarrow> exn + 'm"
  smoothed :: "'m \<Rightarrow> exn + 'm"
  copy_mesh :: "'m \<Rightarrow> 'm"
  apply_translation :: "json \<Rightarrow> 'm \<Rightarrow> exn + 'm"
  rotation_matrix :: "json \<Rightarrow> json \<Rightarrow> exn + matrix"
  np_array_item :: "json \<Rightarrow> nat \<Rightarrow> exn + real"
  torus_mesh :: "json \<Rightarrow> json \<Rightarrow> json \<Rightarrow> json \<Rightarrow> exn + 'm"
  icosphere :: "json \<Rightarrow> json \<Rightarrow> exn + 'm"
  volume :: "'m \<Rightarrow> exn + json"
  area :: "'m \<Rightarrow> exn + json"
  is_watertight :: "'m \<Rightarrow> exn + json"
  center_mass :: "'m \<Rightarrow> exn + json"
  export_base64 :: "'m \<Rightarrow> json \<Rightarrow> exn + string"
  vertices_tolist :: "'m \<Rightarrow> exn + json"
  faces_tolist :: "'m \<Rightarrow> exn + json"
  normals_tolist :: "'m \<Rightarrow> exn + json"
  os_makedirs :: "json \<Rightarrow> exn option"
  os_path_join :: "json \<Rightarrow> string \<Rightarrow> exn + string"
  export_file :: "'m \<Rightarrow> string \<Rightarrow> exn option"
  os_abspath :: "string \<Rightarrow> string"
  os_getsize :: "string \<Rightarrow> exn + nat"

text \<open>
  \<open>torus_mesh\<close> stands for lines 439 to 457 (the parametric grid, its faces and the
  \<^verbatim>\<open>Trimesh\<close> built from them); \<open>export_base64\<close> for the export and its base64
  encoding; \<open>np_array_item v i\<close> for \<^verbatim>\<open>np.array(v)[i]\<close> as the float written into
  a matrix.
\<close>

definition fmt :: "('m, 'f) lib \<Rightarrow> json \<Rightarrow> string" where
  "fmt L v = py_str (py_repr L) v"

text \<open>The default names: \<^verbatim>\<open>f"mesh_{len(self.meshes)}"\<close> and the like from the size of
  the registry, \<^verbatim>\<open>f"beveled_{mesh_id}"\<close> and the like from a given name.\<close>

definition auto_name :: "string \<Rightarrow> nat \<Rightarrow> json" where
  "auto_name prefix n = JStr (prefix @ str_nat n)"

definition derived_name :: "('m, 'f) lib \<Rightarrow> string \<Rightarrow> json \<Rightarrow> json" where
  "derived_name L prefix mesh_id = JStr (prefix @ fmt L mesh_id)"

subsection \<open>Handlers: the shared parts\<close>

type_synonym 'm result = "(exn + response) \<times> 'm state"

text \<open>
  The body of a handler's \<^verbatim>\<open>try\<close> gives the response it returns or the exception
  it raises, with the state at that moment; \<^verbatim>\<open>except Exception as e\<close> turns the
  exception into a failure response and keeps that state.
\<close>

definition catch :: "'m result \<Rightarrow> response \<times> 'm state" where
  "catch r =
     (case fst r of
        Inl e \<Rightarrow> (failure (str_exn e), snd r)
      | Inr resp \<Rightarrow> (resp, snd r))"

text \<open>The first statement of every \<^verbatim>\<open>try\<close> is a \<^verbatim>\<open>params.get\<close>.\<close>

definition with_params ::
  "(pdict \<Rightarrow> 'm state \<Rightarrow> 'm result) \<Rightarrow> json \<Rightarrow> 'm state \<Rightarrow> response \<times> 'm state" where
  "with_params body params s =
     catch (case params of
              JObj p \<Rightarrow> body p s
            | _ \<Rightarrow> (Inl (AttributeError (quoted (type_name params)
                          @ '' object has no attribute '' @ quoted ''get'')), s))"

definition stats_response :: "('m, 'f) lib \<Rightarrow> string \<Rightarrow> json \<Rightarrow> 'm \<Rightarrow> exn + response" where
  "stats_response L id_field name m =
     (case bounds_tolist L m of
        Inl e \<Rightarrow> Inl e
      | Inr b \<Rightarrow>
          Inr [(''success'', JBool True),
               (id_field, name),
               (''vertices_count'', JInt (int (vertices_count L m))),
               (''faces_count'', JInt (int (faces_count L m))),
               (''bounds'', b)])"

text \<open>\<^verbatim>\<open>self.meshes[name] = mesh\<close>, then the response built from the stored mesh.\<close>

definition commit :: "('m, 'f) lib \<Rightarrow> string \<Rightarrow> json \<Rightarrow> nat \<Rightarrow> 'm state \<Rightarrow> 'm result" where
  "commit L id_field name a s =
     (case store name a s of
        Inl e \<Rightarrow> (Inl e, s)
      | Inr s' \<Rightarrow> (stats_response L id_field name (heap s' ! a), s'))"

definition not_found :: "'m state \<Rightarrow> 'm result" where
  "not_found s = (Inr (failure ''Mesh not found''), s)"

definition eye4 :: matrix where
  "eye4 = [[1, 0, 0, 0], [0, 1, 0, 0], [0, 0, 1, 0], [0, 0, 0, 1]]"

text \<open>\<^verbatim>\<open>transform[:3, :3] *= x\<close> and \<^verbatim>\<open>transform[i, j] = x\<close>.\<close>

definition scale_upper3 :: "real \<Rightarrow> matrix \<Rightarrow> matrix" where
  "scale_upper3 x M =
     map (\<lambda>(i, row). if i < 3 then map (\<lambda>(j, v). if j < 3 then v * x else v) (enumerate 0 row)
                      else row)
         (enumerate 0 M)"

definition set_entry :: "nat \<Rightarrow> nat \<Rightarrow> real \<Rightarrow> matrix \<Rightarrow> matrix" where
  "set_entry i j x M = M[i := (M ! i)[j := x]]"

text \<open>\<^verbatim>\<open>isinstance(v, (int, float))\<close> holds of a bool too.\<close>

fun number_value :: "json \<Rightarrow> real option" where
  "number_value (JBool b) = Some (if b then 1 else 0)"
| "number_value (JInt i) = Some (of_int i)"
| "number_value (JFloat r) = Some r"
| "number_value v = None"

subsection \<open>create_primitive\<close>

definition make_primitive :: "('m, 'f) lib \<Rightarrow> pdict \<Rightarrow> json \<Rightarrow> (exn + 'm) option" where
  "make_primitive L params primitive_type =
     (if primitive_type = JStr ''box'' then
        Some (Box L (dict_get params ''extents'' (JArr [JFloat 1, JFloat 1, JFloat 1])))
      else if primitive_type = JStr ''sphere'' then
        Some (Sphere L (dict_get params ''radius'' (JFloat 1))
                       (dict_get params ''subdivisions'' (JInt 2)))
      else if primitive_type = JStr ''cylinder'' then
        Some (Cylinder L (dict_get params ''radius'' (JFloat 1))
                         (dict_get params ''height'' (JFloat 2))
                         (dict_get params ''sections'' (JInt 32)))
      else if primitive_type = JStr ''capsule'' then
        Some (Capsule L (dict_get params ''radius'' (JFloat 1))
                        (dict_get params ''height'' (JFloat 2)))
      else None)"

definition create_primitive_body :: "('m, 'f) lib \<Rightarrow> pdict \<Rightarrow> 'm state \<Rightarrow> 'm result" where
  "create_primitive_body L params s =
     (let mesh_id = dict_get params ''mesh_id'' (auto_name ''mesh_'' (length (meshes s)));
          primitive_type = dict_get params ''type'' (JStr ''box'')
      in case make_primitive L params primitive_type of
           None \<Rightarrow> (Inr (failure (''Unknown primitive type: '' @ fmt L primitive_type)), s)
         | Some (Inl e) \<Rightarrow> (Inl e, s)
         | Some (Inr m) \<Rightarrow>
             (let (mesh, s1) = new_obj m s
              in case (if has_key params ''transform'' then
                         (case reshape44 L (dict_get params ''transform'' JNull) of
                            Inl e \<Rightarrow> Inl e
                          | Inr transform_matrix \<Rightarrow>
                              in_place (apply_transform L transform_matrix) mesh s1)
                       else Inr s1) of
                   Inl e \<Rightarrow> (Inl e, s1)
                 | Inr s2 \<Rightarrow> commit L ''mesh_id'' mesh_id mesh s2))"

definition create_primitive ::
  "('m, 'f) lib \<Rightarrow> json \<Rightarrow> 'm state \<Rightarrow> response \<times> 'm state" where
  "create_primitive L = with_params (create_primitive_body L)"

subsection \<open>boolean_operation\<close>

text \<open>Lines 167 to 188: the manifold3d attempt.\<close>

definition manifold_tier :: "('m, 'f) lib \<Rightarrow> json \<Rightarrow> 'm \<Rightarrow> 'm \<Rightarrow> exn + 'm pyobj" where
  "manifold_tier L operation mesh_a mesh_b =
     (case import_manifold3d L of
        Some e \<Rightarrow> Inl e
      | None \<Rightarrow>
     (case manifold_of L mesh_a of
        Inl e \<Rightarrow> Inl e
      | Inr cube_manifold \<Rightarrow>
     (case manifold_of L mesh_b of
        Inl e \<Rightarrow> Inl e
      | Inr cylinder_manifold \<Rightarrow>
     (case (if operation = JStr ''union'' then manifold_add L cube_manifold cylinder_manifold
            else if operation = JStr ''difference'' then
              manifold_sub L cube_manifold cylinder_manifold
            else if operation = JStr ''intersection'' then
              manifold_xor L cube_manifold cylinder_manifold
            else Inl (Exception (''Unknown operation: '' @ fmt L operation))) of
        Inl e \<Rightarrow> Inl e
      | Inr result_manifold \<Rightarrow>
     (case manifold_to_trimesh L result_manifold of
        Inl e \<Rightarrow> Inl e
      | Inr result \<Rightarrow> Inr (Mesh result))))))"

text \<open>The Blender attempt and the trimesh attempt; the handlers of ImportError (lines 190
  to 213) and of any other exception (lines 215 to 239) run the same two.\<close>

definition blender_tier :: "('m, 'f) lib \<Rightarrow> json \<Rightarrow> 'm \<Rightarrow> 'm \<Rightarrow> exn + 'm pyobj" where
  "blender_tier L operation mesh_a mesh_b =
     (if blender_exists L then blender_boolean L mesh_a mesh_b operation
      else Inl (Exception ''Blender not available''))"

definition trimesh_tier :: "('m, 'f) lib \<Rightarrow> json \<Rightarrow> 'm \<Rightarrow> 'm \<Rightarrow> exn + 'm pyobj" where
  "trimesh_tier L operation mesh_a mesh_b =
     (if operation = JStr ''union'' then mesh_union L mesh_a mesh_b
      else if operation = JStr ''difference'' then mesh_difference L mesh_a mesh_b
      else if operation = JStr ''intersection'' then mesh_intersection L mesh_a mesh_b
      else Inl (Exception (''Unknown operation: '' @ fmt L operation)))"

definition cascade :: "('m, 'f) lib \<Rightarrow> json \<Rightarrow> 'm \<Rightarrow> 'm \<Rightarrow> exn + 'm pyobj" where
  "cascade L operation mesh_a mesh_b =
     (case manifold_tier L operation mesh_a mesh_b of
        Inr result \<Rightarrow> Inr result
      | Inl manifold_error \<Rightarrow>
          (case blender_tier L operation mesh_a mesh_b of
             Inr result \<Rightarrow> Inr result
           | Inl blender_error \<Rightarrow> trimesh_tier L operation mesh_a mesh_b))"

text \<open>Lines 242 to 257: what is kept of a backend's result.\<close>

definition normalize_result :: "('m, 'f) lib \<Rightarrow> 'm pyobj \<Rightarrow> exn + 'm" where
  "normalize_result L result =
     (case result of
        PyNone \<Rightarrow> Inl (Exception ''Boolean operation produced None result'')
      | Opaque \<Rightarrow> Inl (Exception ''Boolean operation produced empty result'')
      | Scene geometry \<Rightarrow>
          (case geometry of
             [] \<Rightarrow> Inl (Exception ''Boolean operation produced empty scene'')
           | (first_geom_name, part) # others \<Rightarrow>
               if vertices_count L part = 0 then
                 Inl (Exception ''Boolean operation produced empty result'')
               else Inr part)
      | Mesh m \<Rightarrow>
          if vertices_count L m = 0 then
            Inl (Exception ''Boolean operation produced empty result'')
          else Inr m)"

text \<open>Lines 159 to 257, the inner \<^verbatim>\<open>try\<close>: both operands are processed where they are
  stored, then the backends run on them. Logging is left out.\<close>

definition boolean_attempt ::
  "('m, 'f) lib \<Rightarrow> json \<Rightarrow> nat \<Rightarrow> nat \<Rightarrow> 'm state \<Rightarrow> (exn + 'm) \<times> 'm state" where
  "boolean_attempt L operation mesh_a mesh_b s =
     (case in_place (process L) mesh_a s of
        Inl e \<Rightarrow> (Inl e, s)
      | Inr s1 \<Rightarrow>
     (case in_place (process L) mesh_b s1 of
        Inl e \<Rightarrow> (Inl e, s1)
      | Inr s2 \<Rightarrow>
          ((case cascade L operation (heap s2 ! mesh_a) (heap s2 ! mesh_b) of
              Inl e \<Rightarrow> Inl e
            | Inr result \<Rightarrow> normalize_result L result),
           s2)))"

text \<open>Lines 273 to 287.\<close>

definition finish_boolean :: "('m, 'f) lib \<Rightarrow> json \<Rightarrow> 'm \<Rightarrow> 'm state \<Rightarrow> 'm result" where
  "finish_boolean L result_id result s =
     (if vertices_count L result = 0 then
        (Inr (failure ''Boolean operation resulted in empty mesh''), s)
      else (let (a, s') = new_obj result s in commit L ''result_id'' result_id a s'))"

text \<open>Lines 259 to 271: the value of \<^verbatim>\<open>result\<close> after the inner \<^verbatim>\<open>try\<close> and its
  handler, which concatenates for a union and returns a failure for anything else.\<close>

definition boolean_result ::
  "('m, 'f) lib \<Rightarrow> json \<Rightarrow> nat \<Rightarrow> nat \<Rightarrow> 'm state \<Rightarrow> (response + exn + 'm) \<times> 'm state" where
  "boolean_result L operation mesh_a mesh_b s =
     (let (attempt, s1) = boolean_attempt L operation mesh_a mesh_b s
      in (case attempt of
            Inr result \<Rightarrow> Inr (Inr result)
          | Inl bool_error \<Rightarrow>
              if operation = JStr ''union'' then
                Inr (concatenate L (heap s1 ! mesh_a) (heap s1 ! mesh_b))
              else
                Inl (failure (''Boolean '' @ fmt L operation @ '' failed: ''
                       @ str_exn bool_error
                       @ ''. Manifold3d is installed but may have compatibility issues.'')),
          s1))"

definition boolean_operation_body :: "('m, 'f) lib \<Rightarrow> pdict \<Rightarrow> 'm state \<Rightarrow> 'm result" where
  "boolean_operation_body L params s =
     (let mesh_a_id = dict_get params ''mesh_a'' JNull;
          mesh_b_id = dict_get params ''mesh_b'' JNull;
          operation = dict_get params ''operation'' (JStr ''union'');
          result_id = dict_get params ''result_id''
                        (auto_name ''result_'' (length (meshes s)))
      in case contains mesh_a_id s of
           Inl e \<Rightarrow> (Inl e, s)
         | Inr has_a \<Rightarrow>
     (if \<not> has_a then (Inr (failure ''One or both meshes not found''), s)
      else (case contains mesh_b_id s of
           Inl e \<Rightarrow> (Inl e, s)
         | Inr has_b \<Rightarrow>
     (if \<not> has_b then (Inr (failure ''One or both meshes not found''), s)
      else (case lookup (py_repr L) mesh_a_id s of
           Inl e \<Rightarrow> (Inl e, s)
         | Inr mesh_a \<Rightarrow>
     (case lookup (py_repr L) mesh_b_id s of
           Inl e \<Rightarrow> (Inl e, s)
         | Inr mesh_b \<Rightarrow>
     (case boolean_result L operation mesh_a mesh_b s of
           (Inl resp, s1) \<Rightarrow> (Inr resp, s1)
         | (Inr (Inl e), s1) \<Rightarrow> (Inl e, s1)
         | (Inr (Inr result), s1) \<Rightarrow> finish_boolean L result_id result s1)))))))"

definition boolean_operation ::
  "('m, 'f) lib \<Rightarrow> json \<Rightarrow> 'm state \<Rightarrow> response \<times> 'm state" where
  "boolean_operation L = with_params (boolean_operation_body L)"

subsection \<open>extrude\<close>

definition extrude_mesh_body :: "('m, 'f) lib \<Rightarrow> pdict \<Rightarrow> 'm state \<Rightarrow> 'm result" where
  "extrude_mesh_body L params s =
     (let mesh_id = dict_get params ''mesh_id''
                      (auto_name ''extruded_'' (length (meshes s)));
          polygon_points = dict_get params ''polygon''
                      (JArr [JArr [JInt 0, JInt 0], JArr [JInt 1, JInt 0],
                             JArr [JInt 1, JInt 1], JArr [JInt 0, JInt 1]]);
          height = dict_get params ''height'' (JFloat 1)
      in case extrude_polygon L polygon_points height of
           Inl e \<Rightarrow> (Inl e, s)
         | Inr m \<Rightarrow> (let (mesh, s1) = new_obj m s in commit L ''mesh_id'' mesh_id mesh s1))"

definition extrude_mesh ::
  "('m, 'f) lib \<Rightarrow> json \<Rightarrow> 'm state \<Rightarrow> response \<times> 'm state" where
  "extrude_mesh L = with_params (extrude_mesh_body L)"

subsection \<open>bevel\<close>

text \<open>\<^verbatim>\<open>1.0 - bevel_distance\<close>.\<close>

definition one_minus :: "json \<Rightarrow> exn + real" where
  "one_minus v =
     (case number_value v of
        Some x \<Rightarrow> Inr (1 - x)
      | None \<Rightarrow> Inl (TypeError (''unsupported operand type(s) for -: '' @ quoted ''float''
                        @ '' and '' @ quoted (type_name v))))"

definition bevel_mesh_body :: "('m, 'f) lib \<Rightarrow> pdict \<Rightarrow> 'm state \<Rightarrow> 'm result" where
  "bevel_mesh_body L params s =
     (let mesh_id = dict_get params ''mesh_id'' JNull;
          bevel_distance = dict_get params ''distance'' (JFloat (1 / 10))
      in case contains mesh_id s of
           Inl e \<Rightarrow> (Inl e, s)
         | Inr found \<Rightarrow>
     (if \<not> found then not_found s
      else (case lookup (py_repr L) mesh_id s of
           Inl e \<Rightarrow> (Inl e, s)
         | Inr mesh \<Rightarrow>
     (case smoothed L (heap s ! mesh) of
           Inl e \<Rightarrow> (Inl e, s)
         | Inr m \<Rightarrow>
     (let (smoothed_mesh, s1) = new_obj m s
      in case one_minus bevel_distance of
           Inl e \<Rightarrow> (Inl e, s1)
         | Inr scale_factor \<Rightarrow>
     (case in_place (apply_transform L (scale_upper3 scale_factor eye4)) smoothed_mesh s1 of
           Inl e \<Rightarrow> (Inl e, s1)
         | Inr s2 \<Rightarrow>
             commit L ''result_id''
               (dict_get params ''result_id'' (derived_name L ''beveled_'' mesh_id))
               smoothed_mesh s2))))))"

definition bevel_mesh ::
  "('m, 'f) lib \<Rightarrow> json \<Rightarrow> 'm state \<Rightarrow> response \<times> 'm state" where
  "bevel_mesh L = with_params (bevel_mesh_body L)"

subsection \<open>transform_mesh\<close>

definition substring :: "string \<Rightarrow> string \<Rightarrow> bool" where
  "substring p t = list_ex (\<lambda>i. take (length p) (drop i t) = p) [0..<Suc (length t)]"

text \<open>\<^verbatim>\<open>name in v\<close> and \<^verbatim>\<open>v[name]\<close> for a string \<^verbatim>\<open>name\<close> and a decoded value.\<close>

definition py_in :: "string \<Rightarrow> json \<Rightarrow> exn + bool" where
  "py_in name v =
     (case v of
        JObj kv \<Rightarrow> Inr (has_key kv name)
      | JArr xs \<Rightarrow> Inr (JStr name \<in> set xs)
      | JStr t \<Rightarrow> Inr (substring name t)
      | _ \<Rightarrow> Inl (TypeError (''argument of type '' @ quoted (type_name v)
                     @ '' is not iterable'')))"

definition py_getitem :: "json \<Rightarrow> string \<Rightarrow> exn + json" where
  "py_getitem v name =
     (case v of
        JObj kv \<Rightarrow>
          (case map_of kv name of
             None \<Rightarrow> Inl (KeyError (quoted name))
           | Some x \<Rightarrow> Inr x)
      | JArr xs \<Rightarrow> Inl (TypeError ''list indices must be integers or slices, not str'')
      | JStr t \<Rightarrow> Inl (TypeError ''string indices must be integers'')
      | _ \<Rightarrow> Inl (TypeError (quoted (type_name v) @ '' object is not subscriptable'')))"

definition translate_step ::
  "('m, 'f) lib \<Rightarrow> pdict \<Rightarrow> nat \<Rightarrow> 'm state \<Rightarrow> exn + 'm state" where
  "translate_step L params mesh s =
     (if has_key params ''translate'' then
        in_place (apply_translation L (dict_get params ''translate'' JNull)) mesh s
      else Inr s)"

text \<open>Lines 385 to 390: the matrix of the rotation to apply, if there is one.\<close>

definition rotation_of :: "('m, 'f) lib \<Rightarrow> pdict \<Rightarrow> exn + matrix option" where
  "rotation_of L params =
     (if has_key params ''rotate'' then
        (let rotation = dict_get params ''rotate'' JNull
         in case py_in ''axis'' rotation of
              Inl e \<Rightarrow> Inl e
            | Inr has_axis \<Rightarrow>
        (if \<not> has_axis then Inr None
         else (case py_in ''angle'' rotation of
              Inl e \<Rightarrow> Inl e
            | Inr has_angle \<Rightarrow>
        (if \<not> has_angle then Inr None
         else (case py_getitem rotation ''axis'' of
              Inl e \<Rightarrow> Inl e
            | Inr axis \<Rightarrow>
        (case py_getitem rotation ''angle'' of
              Inl e \<Rightarrow> Inl e
            | Inr angle \<Rightarrow>
        (case rotation_matrix L angle axis of
              Inl e \<Rightarrow> Inl e
            | Inr M \<Rightarrow> Inr (Some M))))))))
      else Inr None)"

definition rotate_step ::
  "('m, 'f) lib \<Rightarrow> pdict \<Rightarrow> nat \<Rightarrow> 'm state \<Rightarrow> exn + 'm state" where
  "rotate_step L params mesh s =
     (case rotation_of L params of
        Inl e \<Rightarrow> Inl e
      | Inr None \<Rightarrow> Inr s
      | Inr (Some M) \<Rightarrow> in_place (apply_transform L M) mesh s)"

text \<open>Lines 394 to 406: the matrix of a scale, uniform for a number, by components else.\<close>

definition scale_matrix :: "('m, 'f) lib \<Rightarrow> json \<Rightarrow> exn + matrix" where
  "scale_matrix L scale =
     (case number_value scale of
        Some x \<Rightarrow> Inr (scale_upper3 x eye4)
      | None \<Rightarrow>
     (case np_array_item L scale 0 of
        Inl e \<Rightarrow> Inl e
      | Inr x \<Rightarrow>
     (case np_array_item L scale 1 of
        Inl e \<Rightarrow> Inl e
      | Inr y \<Rightarrow>
     (case np_array_item L scale 2 of
        Inl e \<Rightarrow> Inl e
      | Inr z \<Rightarrow> Inr (set_entry 2 2 z (set_entry 1 1 y (set_entry 0 0 x eye4)))))))"

definition scale_step ::
  "('m, 'f) lib \<Rightarrow> pdict \<Rightarrow> nat \<Rightarrow> 'm state \<Rightarrow> exn + 'm state" where
  "scale_step L params mesh s =
     (if has_key params ''scale'' then
        (case scale_matrix L (dict_get params ''scale'' JNull) of
           Inl e \<Rightarrow> Inl e
         | Inr M \<Rightarrow> in_place (apply_transform L M) mesh s)
      else Inr s)"

definition transform_mesh_body :: "('m, 'f) lib \<Rightarrow> pdict \<Rightarrow> 'm state \<Rightarrow> 'm result" where
  "transform_mesh_body L params s =
     (let mesh_id = dict_get params ''mesh_id'' JNull
      in case contains mesh_id s of
           Inl e \<Rightarrow> (Inl e, s)
         | Inr found \<Rightarrow>
     (if \<not> found then not_found s
      else (case lookup (py_repr L) mesh_id s of
           Inl e \<Rightarrow> (Inl e, s)
         | Inr source \<Rightarrow>
     (let (mesh, s0) = new_obj (copy_mesh L (heap s ! source)) s
      in case translate_step L params mesh s0 of
           Inl e \<Rightarrow> (Inl e, s0)
         | Inr s1 \<Rightarrow>
     (case rotate_step L params mesh s1 of
           Inl e \<Rightarrow> (Inl e, s1)
         | Inr s2 \<Rightarrow>
     (case scale_step L params mesh s2 of
           Inl e \<Rightarrow> (Inl e, s2)
         | Inr s3 \<Rightarrow>
             commit L ''result_id''
               (dict_get params ''result_id'' (derived_name L ''transformed_'' mesh_id))
               mesh s3))))))"

definition transform_mesh ::
  "('m, 'f) lib \<Rightarrow> json \<Rightarrow> 'm state \<Rightarrow> response \<times> 'm state" where
  "transform_mesh L = with_params (transform_mesh_body L)"

subsection \<open>create_complex_mesh\<close>

definition make_complex :: "('m, 'f) lib \<Rightarrow> pdict \<Rightarrow> json \<Rightarrow> (exn + 'm) option" where
  "make_complex L params mesh_type =
     (if mesh_type = JStr ''torus'' then
        Some (torus_mesh L (dict_get params ''major_radius'' (JFloat 1))
                           (dict_get params ''minor_radius'' (JFloat (3 / 10)))
                           (dict_get params ''major_sections'' (JInt 32))
                           (dict_get params ''minor_sections'' (JInt 16)))
      else if mesh_type = JStr ''icosphere'' then
        Some (icosphere L (dict_get params ''subdivisions'' (JInt 2))
                          (dict_get params ''radius'' (JFloat 1)))
      else None)"

definition create_complex_mesh_body :: "('m, 'f) lib \<Rightarrow> pdict \<Rightarrow> 'm state \<Rightarrow> 'm result" where
  "create_complex_mesh_body L params s =
     (let mesh_id = dict_get params ''mesh_id''
                      (auto_name ''complex_'' (length (meshes s)));
          mesh_type = dict_get params ''type'' JNull
      in case make_complex L params mesh_type of
           None \<Rightarrow> (Inr (failure (''Unknown complex mesh type: '' @ fmt L mesh_type)), s)
         | Some (Inl e) \<Rightarrow> (Inl e, s)
         | Some (Inr m) \<Rightarrow>
             (let (mesh, s1) = new_obj m s in commit L ''mesh_id'' mesh_id mesh s1))"

definition create_complex_mesh ::
  "('m, 'f) lib \<Rightarrow> json \<Rightarrow> 'm state \<Rightarrow> response \<times> 'm state" where
  "create_complex_mesh L = with_params (create_complex_mesh_body L)"

subsection \<open>get_mesh_info, export_mesh, save_mesh_file\<close>

definition info_response :: "('m, 'f) lib \<Rightarrow> json \<Rightarrow> 'm \<Rightarrow> exn + response" where
  "info_response L mesh_id m =
     (case bounds_tolist L m of Inl e \<Rightarrow> Inl e | Inr b \<Rightarrow>
     (case volume L m of Inl e \<Rightarrow> Inl e | Inr v \<Rightarrow>
     (case area L m of Inl e \<Rightarrow> Inl e | Inr ar \<Rightarrow>
     (case is_watertight L m of Inl e \<Rightarrow> Inl e | Inr w \<Rightarrow>
     (case center_mass L m of Inl e \<Rightarrow> Inl e | Inr c \<Rightarrow>
        Inr [(''success'', JBool True),
             (''mesh_id'', mesh_id),
             (''vertices_count'', JInt (int (vertices_count L m))),
             (''faces_count'', JInt (int (faces_count L m))),
             (''bounds'', b),
             (''volume'', v),
             (''surface_area'', ar),
             (''is_watertight'', w),
             (''center_mass'', c)])))))"

definition get_mesh_info_body :: "('m, 'f) lib \<Rightarrow> pdict \<Rightarrow> 'm state \<Rightarrow> 'm result" where
  "get_mesh_info_body L params s =
     (let mesh_id = dict_get params ''mesh_id'' JNull
      in case contains mesh_id s of
           Inl e \<Rightarrow> (Inl e, s)
         | Inr found \<Rightarrow>
     (if \<not> found then not_found s
      else (case lookup (py_repr L) mesh_id s of
           Inl e \<Rightarrow> (Inl e, s)
         | Inr mesh \<Rightarrow> (info_response L mesh_id (heap s ! mesh), s))))"

definition get_mesh_info ::
  "('m, 'f) lib \<Rightarrow> json \<Rightarrow> 'm state \<Rightarrow> response \<times> 'm state" where
  "get_mesh_info L = with_params (get_mesh_info_body L)"

definition export_response :: "('m, 'f) lib \<Rightarrow> json \<Rightarrow> json \<Rightarrow> 'm \<Rightarrow> exn + response" where
  "export_response L mesh_id format_type m =
     (case export_base64 L m format_type of Inl e \<Rightarrow> Inl e | Inr encoded_data \<Rightarrow>
     (case vertices_tolist L m of Inl e \<Rightarrow> Inl e | Inr vs \<Rightarrow>
     (case faces_tolist L m of Inl e \<Rightarrow> Inl e | Inr fs \<Rightarrow>
     (case normals_tolist L m of Inl e \<Rightarrow> Inl e | Inr ns \<Rightarrow>
        Inr [(''success'', JBool True),
             (''mesh_id'', mesh_id),
             (''format'', format_type),
             (''data'', JStr encoded_data),
             (''vertices'', vs),
             (''faces'', fs),
             (''normals'', ns)]))))"

definition export_mesh_body :: "('m, 'f) lib \<Rightarrow> pdict \<Rightarrow> 'm state \<Rightarrow> 'm result" where
  "export_mesh_body L params s =
     (let mesh_id = dict_get params ''mesh_id'' JNull;
          format_type = dict_get params ''format'' (JStr ''obj'')
      in case contains mesh_id s of
           Inl e \<Rightarrow> (Inl e, s)
         | Inr found \<Rightarrow>
     (if \<not> found then not_found s
      else (case lookup (py_repr L) mesh_id s of
           Inl e \<Rightarrow> (Inl e, s)
         | Inr mesh \<Rightarrow> (export_response L mesh_id format_type (heap s ! mesh), s))))"

definition export_mesh ::
  "('m, 'f) lib \<Rightarrow> json \<Rightarrow> 'm state \<Rightarrow> response \<times> 'm state" where
  "export_mesh L = with_params (export_mesh_body L)"

text \<open>\<^verbatim>\<open>not v\<close> holds of None, False, zero and the empty string, list and dict.\<close>

fun truthy :: "json \<Rightarrow> bool" where
  "truthy JNull = False"
| "truthy (JBool b) = b"
| "truthy (JInt i) = (i \<noteq> 0)"
| "truthy (JFloat r) = (r \<noteq> 0)"
| "truthy (JStr t) = (t \<noteq> [])"
| "truthy (JArr xs) = (xs \<noteq> [])"
| "truthy (JObj kv) = (kv \<noteq> [])"

definition endswith :: "string \<Rightarrow> string \<Rightarrow> bool" where
  "endswith t suffix = (length suffix \<le> length t \<and> drop (length t - length suffix) t = suffix)"

text \<open>Lines 577 to 580: the file name to write.\<close>

definition file_name :: "('m, 'f) lib \<Rightarrow> json \<Rightarrow> json \<Rightarrow> json \<Rightarrow> exn + string" where
  "file_name L filename mesh_id format_type =
     (if \<not> truthy filename then Inr (fmt L mesh_id @ ''.'' @ fmt L format_type)
      else case filename of
             JStr t \<Rightarrow>
               if \<not> endswith t (''.'' @ fmt L format_type) then
                 Inr (t @ ''.'' @ fmt L format_type)
               else Inr t
           | _ \<Rightarrow> Inl (AttributeError (quoted (type_name filename)
                         @ '' object has no attribute '' @ quoted ''endswith'')))"

definition save_response ::
  "('m, 'f) lib \<Rightarrow> json \<Rightarrow> json \<Rightarrow> json \<Rightarrow> json \<Rightarrow> 'm \<Rightarrow> exn + response" where
  "save_response L mesh_id filename format_type output_dir m =
     (case os_makedirs L output_dir of Some e \<Rightarrow> Inl e | None \<Rightarrow>
     (case file_name L filename mesh_id format_type of Inl e \<Rightarrow> Inl e | Inr name \<Rightarrow>
     (case os_path_join L output_dir name of Inl e \<Rightarrow> Inl e | Inr filepath \<Rightarrow>
     (case export_file L m filepath of Some e \<Rightarrow> Inl e | None \<Rightarrow>
     (case os_getsize L filepath of Inl e \<Rightarrow> Inl e | Inr file_size \<Rightarrow>
        Inr [(''success'', JBool True),
             (''mesh_id'', mesh_id),
             (''filepath'', JStr (os_abspath L filepath)),
             (''format'', format_type),
             (''file_size'', JInt (int file_size))])))))"

definition save_mesh_file_body :: "('m, 'f) lib \<Rightarrow> pdict \<Rightarrow> 'm state \<Rightarrow> 'm result" where
  "save_mesh_file_body L params s =
     (let mesh_id = dict_get params ''mesh_id'' JNull;
          filename = dict_get params ''filename'' JNull;
          format_type = dict_get params ''format'' (JStr ''glb'');
          output_dir = dict_get params ''output_dir'' (JStr ''./output'')
      in case contains mesh_id s of
           Inl e \<Rightarrow> (Inl e, s)
         | Inr found \<Rightarrow>
     (if \<not> found then not_found s
      else (case lookup (py_repr L) mesh_id s of
           Inl e \<Rightarrow> (Inl e, s)
         | Inr mesh \<Rightarrow>
             (save_response L mesh_id filename format_type output_dir (heap s ! mesh), s))))"

definition save_mesh_file ::
  "('m, 'f) lib \<Rightarrow> json \<Rightarrow> 'm state \<Rightarrow> response \<times> 'm state" where
  "save_mesh_file L = with_params (save_mesh_file_body L)"

subsection \<open>list_meshes, delete_mesh\<close>

text \<open>The loop of lines 605 to 611 over the registry; a numeric name is listed by its
  value.\<close>

fun mesh_list :: "('m, 'f) lib \<Rightarrow> (key \<times> 'm) list \<Rightarrow> exn + json list" where
  "mesh_list L [] = Inr []"
| "mesh_list L ((k, m) # rest) =
     (case bounds_tolist L m of
        Inl e \<Rightarrow> Inl e
      | Inr b \<Rightarrow>
          (case mesh_list L rest of
             Inl e \<Rightarrow> Inl e
           | Inr entries \<Rightarrow>
               Inr (JObj [(''id'', json_of_key k),
                          (''vertices_count'', JInt (int (vertices_count L m))),
                          (''faces_count'', JInt (int (faces_count L m))),
                          (''bounds'', b)] # entries)))"

definition list_meshes :: "('m, 'f) lib \<Rightarrow> 'm state \<Rightarrow> response \<times> 'm state" where
  "list_meshes L s =
     catch (case mesh_list L (registry s) of
              Inl e \<Rightarrow> Inl e
            | Inr entries \<Rightarrow>
                Inr [(''success'', JBool True),
                     (''meshes'', JArr entries),
                     (''total_count'', JInt (int (length (meshes s))))],
            s)"

definition delete_mesh_body :: "('m, 'f) lib \<Rightarrow> pdict \<Rightarrow> 'm state \<Rightarrow> 'm result" where
  "delete_mesh_body L params s =
     (let mesh_id = dict_get params ''mesh_id'' JNull
      in case contains mesh_id s of
           Inl e \<Rightarrow> (Inl e, s)
         | Inr found \<Rightarrow>
     (if \<not> found then not_found s
      else (case remove mesh_id s of
           Inl e \<Rightarrow> (Inl e, s)
         | Inr s' \<Rightarrow>
             (Inr [(''success'', JBool True),
                   (''message'', JStr (''Mesh '' @ fmt L mesh_id @ '' deleted successfully''))],
              s'))))"

definition delete_mesh ::
  "('m, 'f) lib \<Rightarrow> json \<Rightarrow> 'm state \<Rightarrow> response \<times> 'm state" where
  "delete_mesh L = with_params (delete_mesh_body L)"

subsection \<open>The dispatcher\<close>

definition process_command ::
  "('m, 'f) lib \<Rightarrow> pdict \<Rightarrow> 'm state \<Rightarrow> response \<times> 'm state" where
  "process_command L data s =
     (let command = dict_get data ''command'' JNull;
          params = dict_get data ''params'' (JObj [])
      in if command = JStr ''create_primitive'' then create_primitive L params s
         else if command = JStr ''boolean_operation'' then boolean_operation L params s
         else if command = JStr ''extrude'' then extrude_mesh L params s
         else if command = JStr ''bevel'' then bevel_mesh L params s
         else if command = JStr ''get_mesh_info'' then get_mesh_info L params s
         else if command = JStr ''export_mesh'' then export_mesh L params s
         else if command = JStr ''save_mesh_file'' then save_mesh_file L params s
         else if command = JStr ''list_meshes'' then list_meshes L s
         else if command = JStr ''delete_mesh'' then delete_mesh L params s
         else if command = JStr ''transform_mesh'' then transform_mesh L params s
         else if command = JStr ''create_complex_mesh'' then create_complex_mesh L params s
         else (failure (''Unknown command: '' @ fmt L command), s))"

definition recognized :: "string list" where
  "recognized = [''create_primitive'', ''boolean_operation'', ''extrude'', ''bevel'',
     ''get_mesh_info'', ''export_mesh'', ''save_mesh_file'', ''list_meshes'', ''delete_mesh'',
     ''transform_mesh'', ''create_complex_mesh'']"

text \<open>A session: the commands of one connection, each run to its end before the next.\<close>

fun run :: "('m, 'f) lib \<Rightarrow> pdict list \<Rightarrow> 'm state \<Rightarrow> response list \<times> 'm state" where
  "run L [] s = ([], s)"
| "run L (c # cs) s =
     (let (r, s1) = process_command L c s;
          (rs, s2) = run L cs s1
      in (r # rs, s2))"

subsection \<open>A library instance without geometry\<close>

text \<open>
  To run the handlers on concrete commands, an instance of the library that counts and
  records instead of computing: a mesh is the number of its vertex positions, the number of
  further vertices that repeat one of these positions, the number of its faces, and the
  moves applied to it. \<^verbatim>\<open>process\<close> merges the repeated vertices, \<^verbatim>\<open>smoothed\<close>
  gives three vertices to every position (the faces around a corner of a box no longer share
  it), a concatenation adds the counts, a mesh without faces has no bounds, and a torus of
  one major section is 16 vertices without a face. No boolean backend is there: manifold3d
  is not installed, Blender does not exist, and the trimesh booleans raise.
\<close>

datatype move = Transform matrix | Translate json

datatype traced = Traced nat nat nat "move list"

fun traced_vertices :: "traced \<Rightarrow> nat" where
  "traced_vertices (Traced n d f ms) = n + d"

fun traced_faces :: "traced \<Rightarrow> nat" where
  "traced_faces (Traced n d f ms) = f"

fun traced_move :: "move \<Rightarrow> traced \<Rightarrow> traced" where
  "traced_move m (Traced n d f ms) = Traced n d f (ms @ [m])"

fun traced_merge :: "traced \<Rightarrow> traced" where
  "traced_merge (Traced n d f ms) = Traced n 0 f ms"

fun traced_split :: "traced \<Rightarrow> traced" where
  "traced_split (Traced n d f ms) = Traced n (d + 2 * n) f ms"

fun traced_append :: "traced \<Rightarrow> traced \<Rightarrow> traced" where
  "traced_append (Traced n d f ms) (Traced n' d' f' ms') = Traced (n + n') (d + d') (f + f') []"

definition quarter_turn :: matrix where
  "quarter_turn = [[0, - 1, 0, 0], [1, 0, 0, 0], [0, 0, 1, 0], [0, 0, 0, 1]]"

definition traced_item :: "json \<Rightarrow> nat \<Rightarrow> exn + real" where
  "traced_item v i =
     (case v of
        JArr xs \<Rightarrow>
          if i < length xs then
            (case number_value (xs ! i) of
               Some x \<Rightarrow> Inr x
             | None \<Rightarrow> Inl (Exception ''could not convert to float''))
          else Inl (Exception ''index out of bounds'')
      | _ \<Rightarrow> Inl (Exception ''too many indices for array''))"

definition trace_lib :: "(traced, unit) lib" where
  "trace_lib = \<lparr>
     py_repr = (\<lambda>v. ''<repr>''),
     vertices_count = traced_vertices,
     faces_count = traced_faces,
     bounds_tolist = (\<lambda>m. if traced_faces m = 0
        then Inl (AttributeError (quoted ''NoneType'' @ '' object has no attribute ''
                    @ quoted ''tolist''))
        else Inr (JArr [])),
     Box = (\<lambda>extents. Inr (Traced 8 0 12 [])),
     Sphere = (\<lambda>radius subdivisions. Inr (Traced 42 0 80 [])),
     Cylinder = (\<lambda>radius height sections. Inr (Traced 66 0 128 [])),
     Capsule = (\<lambda>radius height. Inr (Traced 100 0 196 [])),
     reshape44 = (\<lambda>v. case v of JArr xs \<Rightarrow> Inr eye4
                       | _ \<Rightarrow> Inl (Exception ''cannot reshape array into shape (4,4)'')),
     apply_transform = (\<lambda>M m. Inr (traced_move (Transform M) m)),
     process = (\<lambda>m. Inr (traced_merge m)),
     import_manifold3d = Some (ImportError ''No module named manifold3d''),
     manifold_of = (\<lambda>m. Inr ()),
     manifold_add = (\<lambda>a b. Inr ()),
     manifold_sub = (\<lambda>a b. Inr ()),
     manifold_xor = (\<lambda>a b. Inr ()),
     manifold_to_trimesh = (\<lambda>f. Inl (Exception ''no manifold'')),
     blender_exists = False,
     blender_boolean = (\<lambda>a b operation. Inl (Exception ''no blender'')),
     mesh_union = (\<lambda>a b. Inl (Exception ''No backends available for boolean operations!'')),
     mesh_difference =
       (\<lambda>a b. Inl (Exception ''No backends available for boolean operations!'')),
     mesh_intersection =
       (\<lambda>a b. Inl (Exception ''No backends available for boolean operations!'')),
     concatenate = (\<lambda>a b. Inr (traced_append a b)),
     extrude_polygon = (\<lambda>polygon height. Inr (Traced 8 0 12 [])),
     smoothed = (\<lambda>m. Inr (traced_split m)),
     copy_mesh = (\<lambda>m. m),
     apply_translation = (\<lambda>v m. Inr (traced_move (Translate v) m)),
     rotation_matrix = (\<lambda>angle axis. Inr quarter_turn),
     np_array_item = traced_item,
     torus_mesh = (\<lambda>major_radius minor_radius major_sections minor_sections.
        if major_sections = JInt 1 then Inr (Traced 16 0 0 []) else Inr (Traced 512 0 930 [])),
     icosphere = (\<lambda>subdivisions radius. Inr (Traced 162 0 320 [])),
     volume = (\<lambda>m. Inr (JFloat 0)),
     area = (\<lambda>m. Inr (JFloat 0)),
     is_watertight = (\<lambda>m. Inr (JBool True)),
     center_mass = (\<lambda>m. Inr (JArr [])),
     export_base64 = (\<lambda>m format_type. Inr []),
     vertices_tolist = (\<lambda>m. Inr (JArr [])),
     faces_tolist = (\<lambda>m. Inr (JArr [])),
     normals_tolist = (\<lambda>m. Inr (JArr [])),
     os_makedirs = (\<lambda>output_dir. None),
     os_path_join = (\<lambda>output_dir name. Inr name),
     export_file = (\<lambda>m filepath. None),
     os_abspath = (\<lambda>filepath. filepath),
     os_getsize = (\<lambda>filepath. Inr 0)
   \<rparr>"

text \<open>The same, with trimesh booleans that return a scene of the given parts.\<close>

definition scene_lib :: "(string \<times> traced) list \<Rightarrow> (traced, unit) lib" where
  "scene_lib parts = trace_lib\<lparr>mesh_union := (\<lambda>a b. Inr (Scene parts)),
                                mesh_difference := (\<lambda>a b. Inr (Scene parts))\<rparr>"

definition cmd :: "string \<Rightarrow> pdict \<Rightarrow> pdict" where
  "cmd name params = [(''command'', JStr name), (''params'', JObj params)]"

subsection \<open>Notions used in the statements\<close>

text \<open>A name that can be a key and is not one of the registry's.\<close>

definition missing :: "json \<Rightarrow> 'm state \<Rightarrow> bool" where
  "missing name s = (case hash_key name of Inl e \<Rightarrow> False | Inr k \<Rightarrow> map_of (meshes s) k = None)"

definition hashable :: "json \<Rightarrow> bool" where
  "hashable v = (case hash_key v of Inl e \<Rightarrow> False | Inr k \<Rightarrow> True)"

text \<open>The uniform scale by a factor about the origin, as a homogeneous matrix.\<close>

definition uniform_scale :: "real \<Rightarrow> matrix" where
  "uniform_scale f = [[f, 0, 0, 0], [0, f, 0, 0], [0, 0, f, 0], [0, 0, 0, 1]]"

text \<open>
  The transformation as the specification words it, on mesh contents and with no store:
  a translation, then an axis-angle rotation, then a scale, each one only if its key is
  there (for the rotation: a \<^verbatim>\<open>rotate\<close> object with \<^verbatim>\<open>axis\<close> and \<^verbatim>\<open>angle\<close>).
\<close>

definition and_then :: "exn + 'a \<Rightarrow> ('a \<Rightarrow> exn + 'b) \<Rightarrow> exn + 'b" where
  "and_then r f = (case r of Inl e \<Rightarrow> Inl e | Inr x \<Rightarrow> f x)"

definition spec_rotation :: "pdict \<Rightarrow> (json \<times> json) option" where
  "spec_rotation params =
     (case map_of params ''rotate'' of
        Some (JObj kv) \<Rightarrow>
          (case map_of kv ''axis'' of
             Some axis \<Rightarrow>
               (case map_of kv ''angle'' of
                  Some angle \<Rightarrow> Some (angle, axis)
                | None \<Rightarrow> None)
           | None \<Rightarrow> None)
      | _ \<Rightarrow> None)"

definition transform_spec :: "('m, 'f) lib \<Rightarrow> pdict \<Rightarrow> 'm \<Rightarrow> exn + 'm" where
  "transform_spec L params m0 =
     and_then (case map_of params ''translate'' of
                 Some v \<Rightarrow> apply_translation L v m0
               | None \<Rightarrow> Inr m0) (\<lambda>m1.
     and_then (case spec_rotation params of
                 Some (angle, axis) \<Rightarrow>
                   and_then (rotation_matrix L angle axis) (\<lambda>M. apply_transform L M m1)
               | None \<Rightarrow> Inr m1) (\<lambda>m2.
     (case map_of params ''scale'' of
        Some v \<Rightarrow> and_then (scale_matrix L v) (\<lambda>M. apply_transform L M m2)
      | None \<Rightarrow> Inr m2)))"

subsection \<open>States and commands of the examples\<close>

definition one_box :: "traced state" where
  "one_box = \<lparr>heap = [Traced 8 0 12 []], meshes = [(KStr ''b'', 0)]\<rparr>"

definition box_and_sphere :: "traced state" where
  "box_and_sphere =
     \<lparr>heap = [Traced 8 0 12 [], Traced 42 0 80 []],
      meshes = [(KStr ''b'', 0), (KStr ''c'', 1)]\<rparr>"

definition boolean_params :: "string \<Rightarrow> pdict" where
  "boolean_params operation =
     [(''mesh_a'', JStr ''b''), (''mesh_b'', JStr ''c''), (''operation'', JStr operation),
      (''result_id'', JStr ''r'')]"

text \<open>Two meshes made under default names, the first deleted, a third made under a default
  name again; and the state after the third command.\<close>

definition collision_session :: "pdict list" where
  "collision_session =
     [cmd ''create_primitive'' [(''type'', JStr ''box'')],
      cmd ''create_primitive'' [(''type'', JStr ''sphere'')],
      cmd ''delete_mesh'' [(''mesh_id'', JStr ''mesh_0'')],
      cmd ''create_primitive'' [(''type'', JStr ''capsule'')]]"

definition after_delete :: "traced state" where
  "after_delete =
     \<lparr>heap = [Traced 8 0 12 [], Traced 42 0 80 []], meshes = [(KStr ''mesh_1'', 1)]\<rparr>"

text \<open>A box, its bevel, and a difference of the two that no backend can compute; and a torus
  of one major section.\<close>

definition bevel_session :: "pdict list" where
  "bevel_session =
     [cmd ''create_primitive'' [(''mesh_id'', JStr ''b'')],
      cmd ''bevel'' [(''mesh_id'', JStr ''b'')],
      cmd ''boolean_operation''
        [(''mesh_a'', JStr ''beveled_b''), (''mesh_b'', JStr ''b''),
         (''operation'', JStr ''difference'')]]"

definition thin_torus :: pdict where
  "thin_torus =
     cmd ''create_complex_mesh'' [(''type'', JStr ''torus''), (''major_sections'', JInt 1)]"

text \<open>Two meshes without vertices; scenes of two parts; a transformation with its keys in
  another order than the one they are applied in.\<close>

definition two_empty :: "traced state" where
  "two_empty =
     \<lparr>heap = [Traced 0 0 0 [], Traced 0 0 0 []],
      meshes = [(KStr ''b'', 0), (KStr ''c'', 1)]\<rparr>"

definition two_parts :: "(string \<times> traced) list" where
  "two_parts = [(''part_0'', Traced 5 0 6 []), (''part_1'', Traced 7 0 10 [])]"

definition empty_first :: "(string \<times> traced) list" where
  "empty_first = [(''part_0'', Traced 0 0 0 []), (''part_1'', Traced 7 0 10 [])]"

definition transform_params :: pdict where
  "transform_params =
     [(''mesh_id'', JStr ''b''),
      (''scale'', JInt 2),
      (''rotate'', JObj [(''axis'', JArr [JInt 0, JInt 0, JInt 1]), (''angle'', JFloat (157 / 100))]),
      (''translate'', JArr [JInt 1, JInt 0, JInt 0])]"

section \<open>Properties of the handlers\<close>

subsection \<open>Responses and the store step\<close>

lemma is_success_failure [simp]: "\<not> is_success (failure msg)"
  by (simp add: is_success_def failure_def)

lemma error_of_failure [simp]: "error_of (failure msg) = Some (JStr msg)"
  by (simp add: error_of_def failure_def)

lemma catch_return [simp]: "catch (Inr r, s) = (r, s)"
  by (simp add: catch_def)

lemma catch_raise [simp]: "catch (Inl e, s) = (failure (str_exn e), s)"
  by (simp add: catch_def)

lemma snd_catch [simp]: "snd (catch r) = snd r"
  by (simp add: catch_def split: sum.splits)

lemma with_params_obj: "with_params body (JObj p) s = catch (body p s)"
  by (simp add: with_params_def)

lemma stats_response_success: "stats_response L f name m = Inr r \<Longrightarrow> is_success r"
  by (auto simp: stats_response_def is_success_def split: sum.splits)

lemma commit_hashable:
  "hash_key name = Inr k \<Longrightarrow>
   commit L f name a s =
     (stats_response L f name (heap s ! a), s\<lparr>meshes := AList.update k a (meshes s)\<rparr>)"
  by (simp add: commit_def store_def)

lemma commit_unhashable: "hash_key name = Inl e \<Longrightarrow> commit L f name a s = (Inl e, s)"
  by (simp add: commit_def store_def)

lemma commit_meshes:
  "hash_key name = Inr k \<Longrightarrow>
   meshes (snd (commit L f name a s)) = AList.update k a (meshes s)"
  by (simp add: commit_hashable)

lemma commit_frame:
  "heap (snd (commit L f name a s)) = heap s"
  by (cases "hash_key name"; cases "stats_response L f name (heap s ! a)")
     (simp_all add: commit_hashable commit_unhashable)

lemma catch_commit_success:
  assumes "catch (commit L f name a s) = (r, s')" and "is_success r"
  shows "\<exists>k. hash_key name = Inr k \<and> s' = s\<lparr>meshes := AList.update k a (meshes s)\<rparr>
            \<and> stats_response L f name (heap s ! a) = Inr r"
proof (cases "hash_key name")
  case (Inl e)
  with assms show ?thesis by (auto simp: commit_unhashable)
next
  case (Inr k)
  with assms show ?thesis
    by (cases "stats_response L f name (heap s ! a)") (auto simp: commit_hashable)
qed

lemma commit_success:
  assumes "is_success (fst (catch (commit L f name a s)))"
  shows "\<exists>k. hash_key name = Inr k
            \<and> heap (snd (commit L f name a s)) = heap s
            \<and> meshes (snd (commit L f name a s)) = AList.update k a (meshes s)
            \<and> stats_response L f name (heap s ! a) = Inr (fst (catch (commit L f name a s)))"
proof -
  obtain r s' where eq: "catch (commit L f name a s) = (r, s')" by force
  with assms have "is_success r" by simp
  from catch_commit_success [OF eq this] eq show ?thesis
    by (auto simp: commit_frame commit_meshes)
qed


subsection \<open>Objects and names\<close>

lemma in_place_new:
  "in_place f (length (heap s)) (s\<lparr>heap := heap s @ [x]\<rparr>) =
     (case f x of Inl e \<Rightarrow> Inl e | Inr x' \<Rightarrow> Inr (s\<lparr>heap := heap s @ [x']\<rparr>))"
  by (simp add: in_place_def split: sum.splits)

lemma in_place_meshes:
  "in_place f a s = Inr s' \<Longrightarrow> meshes s' = meshes s \<and> length (heap s') = length (heap s)"
  by (auto simp: in_place_def split: sum.splits)

lemma lookup_found:
  "hash_key name = Inr k \<Longrightarrow> map_of (meshes s) k = Some a \<Longrightarrow>
   contains name s = Inr True \<and> lookup repr name s = Inr a"
  by (simp add: contains_def lookup_def)

lemma contains_missing: "missing name s \<Longrightarrow> contains name s = Inr False"
  by (auto simp: missing_def contains_def split: sum.splits)





lemma registry_grow: "wf s \<Longrightarrow> registry (s\<lparr>heap := heap s @ [m]\<rparr>) = registry s"
  by (auto simp: registry_def wf_def list_all_iff nth_append)

subsection \<open>Running the handlers on the examples\<close>

text \<open>The equations that evaluate a handler on a concrete command and state.\<close>

lemmas handler_defs =
  process_command_def create_primitive_def boolean_operation_def extrude_mesh_def
  bevel_mesh_def get_mesh_info_def export_mesh_def save_mesh_file_def list_meshes_def
  delete_mesh_def transform_mesh_def create_complex_mesh_def with_params_def catch_def
  create_primitive_body_def boolean_operation_body_def extrude_mesh_body_def
  bevel_mesh_body_def get_mesh_info_body_def export_mesh_body_def save_mesh_file_body_def
  delete_mesh_body_def transform_mesh_body_def create_complex_mesh_body_def
  make_primitive_def make_complex_def boolean_result_def boolean_attempt_def cascade_def
  manifold_tier_def blender_tier_def trimesh_tier_def normalize_result_def
  finish_boolean_def commit_def store_def remove_def lookup_def contains_def in_place_def
  new_obj_def stats_response_def not_found_def translate_step_def rotate_step_def
  rotation_of_def scale_step_def scale_matrix_def one_minus_def py_in_def py_getitem_def
  dict_get_def has_key_def auto_name_def derived_name_def fmt_def failure_def
  is_success_def registry_def init_state_def cmd_def Let_def

lemmas example_defs =
  trace_lib_def scene_lib_def one_box_def box_and_sphere_def boolean_params_def
  collision_session_def quarter_turn_def traced_item_def two_empty_def after_delete_def
  two_parts_def empty_first_def transform_params_def bevel_session_def thin_torus_def

lemma str_nat_digit: "n < 10 \<Longrightarrow> str_nat n = [digit_char n]"
  by (simp add: str_nat.simps)

lemmas eval_defs =
  handler_defs example_defs str_nat_digit digit_char_def scale_upper3_def eye4_def
  uniform_scale_def set_entry_def hashable_def missing_def wf_def recognized_def

subsection \<open>Unknown commands and unknown kinds\<close>

text \<open>
  Claim C7. For a command object whose command name is none of the recognized operations,
  a missing name included (it reads as \<^verbatim>\<open>None\<close>), the dispatcher returns the failure
  response whose error is \<^verbatim>\<open>Unknown command: \<close> followed by the name, and the state is
  the one before: no entry added, removed or modified.
\<close>

theorem unknown_command_fails:
  assumes "dict_get data ''command'' JNull \<notin> JStr ` set recognized"
  shows "process_command L data s =
           (failure (''Unknown command: '' @ fmt L (dict_get data ''command'' JNull)), s)"
  using assms by (auto simp: process_command_def recognized_def Let_def)

theorem unknown_command_fails_witness:
  "dict_get (cmd ''nope'' []) ''command'' JNull \<notin> JStr ` set recognized
   \<and> process_command trace_lib (cmd ''nope'' []) one_box
       = (failure ''Unknown command: nope'', one_box)
   \<and> dict_get [] ''command'' JNull \<notin> JStr ` set recognized
   \<and> process_command trace_lib [] one_box = (failure ''Unknown command: None'', one_box)"
proof -
  have h1: "dict_get (cmd ''nope'' []) ''command'' JNull \<notin> JStr ` set recognized"
    by (simp add: cmd_def dict_get_def recognized_def)
  have h2: "dict_get [] ''command'' JNull \<notin> JStr ` set recognized"
    by (simp add: dict_get_def recognized_def)
  from unknown_command_fails [OF h1, of trace_lib one_box]
       unknown_command_fails [OF h2, of trace_lib one_box] h1 h2
  show ?thesis by (simp add: cmd_def dict_get_def fmt_def)
qed

text \<open>
  Claim C8. \<^verbatim>\<open>create_primitive\<close> with a kind other than box, sphere, cylinder and capsule
  (its default, box, when absent), and \<^verbatim>\<open>create_complex_mesh\<close> with a kind other than
  torus and icosphere (an absent kind reads as \<^verbatim>\<open>None\<close>), return the failure response
  that names the kind, and the state is the one before.
\<close>

theorem unknown_shape_kind_fails:
  "(dict_get params ''type'' (JStr ''box'')
        \<notin> {JStr ''box'', JStr ''sphere'', JStr ''cylinder'', JStr ''capsule''} \<longrightarrow>
      create_primitive L (JObj params) s =
        (failure (''Unknown primitive type: '' @ fmt L (dict_get params ''type'' (JStr ''box''))),
         s))
   \<and> (dict_get params ''type'' JNull \<notin> {JStr ''torus'', JStr ''icosphere''} \<longrightarrow>
      create_complex_mesh L (JObj params) s =
        (failure (''Unknown complex mesh type: '' @ fmt L (dict_get params ''type'' JNull)), s))"
  by (simp add: create_primitive_def create_complex_mesh_def with_params_obj
      create_primitive_body_def create_complex_mesh_body_def make_primitive_def
      make_complex_def Let_def)

theorem unknown_shape_kind_fails_witness:
  "create_primitive trace_lib (JObj [(''type'', JStr ''torus'')]) one_box
     = (failure ''Unknown primitive type: torus'', one_box)
   \<and> create_complex_mesh trace_lib (JObj []) one_box
     = (failure ''Unknown complex mesh type: None'', one_box)"
  using unknown_shape_kind_fails [of "[(''type'', JStr ''torus'')]" trace_lib one_box]
        unknown_shape_kind_fails [of "[]" trace_lib one_box]
  by (simp add: dict_get_def fmt_def)

subsection \<open>Names that are not in the registry\<close>

text \<open>
  Claim C1. When the name a command refers to is not a key of the registry, the command
  returns a failure response whose error says the mesh is not found, and the state is the
  one before. This holds of \<^verbatim>\<open>bevel\<close>, \<^verbatim>\<open>transform_mesh\<close>, \<^verbatim>\<open>get_mesh_info\<close>,
  \<^verbatim>\<open>export_mesh\<close>, \<^verbatim>\<open>save_mesh_file\<close> and \<^verbatim>\<open>delete_mesh\<close> for their
  \<^verbatim>\<open>mesh_id\<close>, and of \<^verbatim>\<open>boolean_operation\<close> for either operand (the second is
  looked at when the first is a key). A name is a value that can be a key: a string, a
  number, a boolean or \<^verbatim>\<open>None\<close>, which is also what an absent name reads as.
\<close>

theorem missing_mesh_not_found:
  "(missing (dict_get params ''mesh_id'' JNull) s \<longrightarrow>
      bevel_mesh L (JObj params) s = (failure ''Mesh not found'', s)
    \<and> transform_mesh L (JObj params) s = (failure ''Mesh not found'', s)
    \<and> get_mesh_info L (JObj params) s = (failure ''Mesh not found'', s)
    \<and> export_mesh L (JObj params) s = (failure ''Mesh not found'', s)
    \<and> save_mesh_file L (JObj params) s = (failure ''Mesh not found'', s)
    \<and> delete_mesh L (JObj params) s = (failure ''Mesh not found'', s))
   \<and> (missing (dict_get params ''mesh_a'' JNull) s
      \<or> hashable (dict_get params ''mesh_a'' JNull) \<and> missing (dict_get params ''mesh_b'' JNull) s
      \<longrightarrow> boolean_operation L (JObj params) s = (failure ''One or both meshes not found'', s))"
proof (intro conjI impI)
  assume m: "missing (dict_get params ''mesh_id'' JNull) s"
  note c = contains_missing [OF m]
  show "bevel_mesh L (JObj params) s = (failure ''Mesh not found'', s)"
    by (simp add: bevel_mesh_def with_params_obj bevel_mesh_body_def Let_def c not_found_def)
  show "transform_mesh L (JObj params) s = (failure ''Mesh not found'', s)"
    by (simp add: transform_mesh_def with_params_obj transform_mesh_body_def Let_def c not_found_def)
  show "get_mesh_info L (JObj params) s = (failure ''Mesh not found'', s)"
    by (simp add: get_mesh_info_def with_params_obj get_mesh_info_body_def Let_def c not_found_def)
  show "export_mesh L (JObj params) s = (failure ''Mesh not found'', s)"
    by (simp add: export_mesh_def with_params_obj export_mesh_body_def Let_def c not_found_def)
  show "save_mesh_file L (JObj params) s = (failure ''Mesh not found'', s)"
    by (simp add: save_mesh_file_def with_params_obj save_mesh_file_body_def Let_def c not_found_def)
  show "delete_mesh L (JObj params) s = (failure ''Mesh not found'', s)"
    by (simp add: delete_mesh_def with_params_obj delete_mesh_body_def Let_def c not_found_def)
next
  assume h: "missing (dict_get params ''mesh_a'' JNull) s
      \<or> hashable (dict_get params ''mesh_a'' JNull) \<and> missing (dict_get params ''mesh_b'' JNull) s"
  then show "boolean_operation L (JObj params) s = (failure ''One or both meshes not found'', s)"
    by (auto simp: boolean_operation_def with_params_obj boolean_operation_body_def Let_def
        hashable_def missing_def contains_def split: sum.splits)
qed

theorem missing_mesh_not_found_witness:
  "missing (JStr ''ghost'') one_box
   \<and> bevel_mesh trace_lib (JObj [(''mesh_id'', JStr ''ghost'')]) one_box
       = (failure ''Mesh not found'', one_box)
   \<and> delete_mesh trace_lib (JObj [(''mesh_id'', JStr ''ghost'')]) one_box
       = (failure ''Mesh not found'', one_box)
   \<and> boolean_operation trace_lib
         (JObj [(''mesh_a'', JStr ''b''), (''mesh_b'', JStr ''ghost'')]) one_box
       = (failure ''One or both meshes not found'', one_box)"
  using missing_mesh_not_found [of "[(''mesh_id'', JStr ''ghost'')]" one_box trace_lib]
        missing_mesh_not_found
          [of "[(''mesh_a'', JStr ''b''), (''mesh_b'', JStr ''ghost'')]" one_box trace_lib]
  by (simp add: dict_get_def missing_def hashable_def one_box_def)

subsection \<open>bevel\<close>




subsection \<open>transform_mesh\<close>

lemma translate_step_new:
  "translate_step L params (length (heap s)) (s\<lparr>heap := heap s @ [m]\<rparr>) =
     (case (case map_of params ''translate'' of
              Some v \<Rightarrow> apply_translation L v m
            | None \<Rightarrow> Inr m) of
        Inl e \<Rightarrow> Inl e
      | Inr m' \<Rightarrow> Inr (s\<lparr>heap := heap s @ [m']\<rparr>))"
  by (auto simp: translate_step_def has_key_def dict_get_def in_place_new
      split: option.splits sum.splits)

lemma rotation_of_spec:
  "rotation_of L params =
     (case spec_rotation params of
        Some (angle, axis) \<Rightarrow>
          (case rotation_matrix L angle axis of Inl e \<Rightarrow> Inl e | Inr M \<Rightarrow> Inr (Some M))
      | None \<Rightarrow> rotation_of L params)"
  by (auto simp: rotation_of_def spec_rotation_def has_key_def dict_get_def py_in_def
      py_getitem_def Let_def split: option.splits json.splits sum.splits)

lemma rotation_of_no_spec:
  "spec_rotation params = None \<Longrightarrow> rotation_of L params = Inr ro \<Longrightarrow> ro = None"
  by (auto simp: rotation_of_def spec_rotation_def has_key_def dict_get_def py_in_def
      py_getitem_def Let_def split: option.splits json.splits sum.splits if_splits)

lemma rotate_step_new:
  "rotate_step L params (length (heap s)) (s\<lparr>heap := heap s @ [m]\<rparr>) = Inr s' \<Longrightarrow>
   \<exists>m'. (case spec_rotation params of
            Some (angle, axis) \<Rightarrow>
              and_then (rotation_matrix L angle axis) (\<lambda>M. apply_transform L M m)
          | None \<Rightarrow> Inr m) = Inr m'
       \<and> s' = s\<lparr>heap := heap s @ [m']\<rparr>"
proof (cases "spec_rotation params")
  case None
  assume "rotate_step L params (length (heap s)) (s\<lparr>heap := heap s @ [m]\<rparr>) = Inr s'"
  with None rotation_of_no_spec [OF None, of L] show ?thesis
    by (auto simp: rotate_step_def split: sum.splits option.splits)
next
  case (Some p)
  assume "rotate_step L params (length (heap s)) (s\<lparr>heap := heap s @ [m]\<rparr>) = Inr s'"
  with Some show ?thesis
    by (subst (asm) rotate_step_def, subst (asm) rotation_of_spec)
       (auto simp: in_place_new and_then_def split: sum.splits prod.splits)
qed

lemma scale_step_new:
  "scale_step L params (length (heap s)) (s\<lparr>heap := heap s @ [m]\<rparr>) =
     (case (case map_of params ''scale'' of
              Some v \<Rightarrow> and_then (scale_matrix L v) (\<lambda>M. apply_transform L M m)
            | None \<Rightarrow> Inr m) of
        Inl e \<Rightarrow> Inl e
      | Inr m' \<Rightarrow> Inr (s\<lparr>heap := heap s @ [m']\<rparr>))"
  by (auto simp: scale_step_def has_key_def dict_get_def in_place_new and_then_def
      split: option.splits sum.splits)

lemma transform_mesh_outcome:
  assumes name: "hash_key (dict_get params ''mesh_id'' JNull) = Inr k"
      and src: "map_of (meshes s) k = Some source"
  shows "(\<exists>e m. transform_mesh L (JObj params) s = (failure (str_exn e), s\<lparr>heap := heap s @ [m]\<rparr>))
       \<or> (\<exists>m'. transform_spec L params (copy_mesh L (heap s ! source)) = Inr m'
             \<and> transform_mesh L (JObj params) s =
                 catch (commit L ''result_id''
                   (dict_get params ''result_id''
                      (derived_name L ''transformed_'' (dict_get params ''mesh_id'' JNull)))
                   (length (heap s)) (s\<lparr>heap := heap s @ [m']\<rparr>)))"
proof -
  note f = lookup_found [OF name src]
  let ?m0 = "copy_mesh L (heap s ! source)"
  let ?s0 = "s\<lparr>heap := heap s @ [?m0]\<rparr>"
  let ?n = "length (heap s)"
  have unfold: "transform_mesh L (JObj params) s =
     catch (case translate_step L params ?n ?s0 of
              Inl e \<Rightarrow> (Inl e, ?s0)
            | Inr s1 \<Rightarrow>
           (case rotate_step L params ?n s1 of
              Inl e \<Rightarrow> (Inl e, s1)
            | Inr s2 \<Rightarrow>
           (case scale_step L params ?n s2 of
              Inl e \<Rightarrow> (Inl e, s2)
            | Inr s3 \<Rightarrow>
                commit L ''result_id''
                  (dict_get params ''result_id''
                     (derived_name L ''transformed_'' (dict_get params ''mesh_id'' JNull)))
                  ?n s3)))"
    using f by (simp add: transform_mesh_def with_params_obj transform_mesh_body_def Let_def
        new_obj_def)
  show ?thesis
  proof (cases "translate_step L params ?n ?s0")
    case (Inl e)
    then show ?thesis unfolding unfold by auto
  next
    case s1: (Inr s1)
    then obtain m1 where m1: "(case map_of params ''translate'' of
              Some v \<Rightarrow> apply_translation L v ?m0 | None \<Rightarrow> Inr ?m0) = Inr m1"
        and s1_eq: "s1 = s\<lparr>heap := heap s @ [m1]\<rparr>"
      by (auto simp: translate_step_new split: sum.splits)
    show ?thesis
    proof (cases "rotate_step L params ?n s1")
      case (Inl e)
      then show ?thesis unfolding unfold using s1 s1_eq by auto
    next
      case s2: (Inr s2)
      from rotate_step_new [OF s2 [unfolded s1_eq]]
      obtain m2 where m2: "(case spec_rotation params of
            Some (angle, axis) \<Rightarrow>
              and_then (rotation_matrix L angle axis) (\<lambda>M. apply_transform L M m1)
          | None \<Rightarrow> Inr m1) = Inr m2"
        and s2_eq: "s2 = s\<lparr>heap := heap s @ [m2]\<rparr>" by auto
      show ?thesis
      proof (cases "scale_step L params ?n s2")
        case (Inl e)
        then show ?thesis unfolding unfold using s1 s2 s2_eq by auto
      next
        case s3: (Inr s3)
        then obtain m3 where m3: "(case map_of params ''scale'' of
              Some v \<Rightarrow> and_then (scale_matrix L v) (\<lambda>M. apply_transform L M m2)
            | None \<Rightarrow> Inr m2) = Inr m3"
          and s3_eq: "s3 = s\<lparr>heap := heap s @ [m3]\<rparr>"
          unfolding s2_eq by (auto simp: scale_step_new split: sum.splits)
        have "transform_spec L params ?m0 = Inr m3"
          using m1 m2 m3 by (simp add: transform_spec_def and_then_def)
        then show ?thesis unfolding unfold using s1 s2 s3 s3_eq by auto
      qed
    qed
  qed
qed




subsection \<open>boolean_operation\<close>

lemma normalize_result_nonempty:
  "normalize_result L result = Inr m \<Longrightarrow> vertices_count L m \<noteq> 0"
  by (auto simp: normalize_result_def split: pyobj.splits list.splits if_splits)

lemma boolean_attempt_meshes:
  "boolean_attempt L operation a b s = (x, s') \<Longrightarrow>
   meshes s' = meshes s \<and> length (heap s') = length (heap s)"
  by (auto simp: boolean_attempt_def split: sum.splits dest!: in_place_meshes)

lemma boolean_result_meshes:
  "boolean_result L operation a b s = (x, s') \<Longrightarrow>
   meshes s' = meshes s \<and> length (heap s') = length (heap s)"
  by (auto simp: boolean_result_def split: prod.splits dest!: boolean_attempt_meshes)

lemma boolean_result_early:
  "boolean_result L operation a b s = (Inl resp, s1) \<Longrightarrow> \<not> is_success resp"
  by (auto simp: boolean_result_def split: prod.splits sum.splits if_splits)

lemma boolean_operation_found:
  assumes "hash_key (dict_get params ''mesh_a'' JNull) = Inr ka" "map_of (meshes s) ka = Some a"
      and "hash_key (dict_get params ''mesh_b'' JNull) = Inr kb" "map_of (meshes s) kb = Some b"
  shows "boolean_operation L (JObj params) s =
     catch (case boolean_result L (dict_get params ''operation'' (JStr ''union'')) a b s of
              (Inl resp, s1) \<Rightarrow> (Inr resp, s1)
            | (Inr (Inl e), s1) \<Rightarrow> (Inl e, s1)
            | (Inr (Inr result), s1) \<Rightarrow>
                finish_boolean L
                  (dict_get params ''result_id''
                     (auto_name ''result_'' (length (meshes s)))) result s1)"
  using lookup_found [OF assms(1,2)] lookup_found [OF assms(3,4)]
  by (simp add: boolean_operation_def with_params_obj boolean_operation_body_def Let_def)


lemma finish_boolean_success:
  assumes ok: "is_success (fst (catch (finish_boolean L name result s)))"
  shows "\<exists>k. hash_key name = Inr k \<and> vertices_count L result \<noteq> 0
           \<and> heap (snd (catch (finish_boolean L name result s))) = heap s @ [result]
           \<and> meshes (snd (catch (finish_boolean L name result s)))
               = AList.update k (length (heap s)) (meshes s)"
proof (cases "vertices_count L result = 0")
  case True
  with ok show ?thesis by (simp add: finish_boolean_def)
next
  case False
  then have eq: "finish_boolean L name result s =
      commit L ''result_id'' name (length (heap s)) (s\<lparr>heap := heap s @ [result]\<rparr>)"
    by (simp add: finish_boolean_def new_obj_def)
  from commit_success [OF ok [unfolded eq]] False show ?thesis unfolding eq by auto
qed

lemma boolean_operation_success:
  assumes ok: "is_success (fst (boolean_operation L (JObj params) s))"
  shows "\<exists>k result.
           hash_key (dict_get params ''result_id'' (auto_name ''result_'' (length (meshes s))))
             = Inr k
         \<and> vertices_count L result \<noteq> 0
         \<and> length (heap (snd (boolean_operation L (JObj params) s))) = Suc (length (heap s))
         \<and> heap (snd (boolean_operation L (JObj params) s)) ! length (heap s) = result
         \<and> meshes (snd (boolean_operation L (JObj params) s))
             = AList.update k (length (heap s)) (meshes s)"
proof -
  let ?a = "dict_get params ''mesh_a'' JNull" and ?b = "dict_get params ''mesh_b'' JNull"
  let ?rid = "dict_get params ''result_id'' (auto_name ''result_'' (length (meshes s)))"
  let ?op = "dict_get params ''operation'' (JStr ''union'')"
  from ok obtain ka where ka: "hash_key ?a = Inr ka"
    by (cases "hash_key ?a")
       (auto simp: boolean_operation_def with_params_obj boolean_operation_body_def Let_def
          contains_def)
  from ok ka obtain a where a: "map_of (meshes s) ka = Some a"
    by (cases "map_of (meshes s) ka")
       (auto simp: boolean_operation_def with_params_obj boolean_operation_body_def Let_def
          contains_def)
  from ok ka a obtain kb where kb: "hash_key ?b = Inr kb"
    by (cases "hash_key ?b")
       (auto simp: boolean_operation_def with_params_obj boolean_operation_body_def Let_def
          contains_def)
  from ok ka a kb obtain b where b: "map_of (meshes s) kb = Some b"
    by (cases "map_of (meshes s) kb")
       (auto simp: boolean_operation_def with_params_obj boolean_operation_body_def Let_def
          contains_def)
  note eq = boolean_operation_found [OF ka a kb b, of L]
  obtain x s1 where res: "boolean_result L ?op a b s = (x, s1)" by force
  note fr = boolean_result_meshes [OF res]
  from ok boolean_result_early [of L ?op a b s _ s1] obtain result
    where x: "x = Inr (Inr result)"
    unfolding eq res by (cases x) (auto split: sum.splits)
  have eq': "boolean_operation L (JObj params) s = catch (finish_boolean L ?rid result s1)"
    unfolding eq res x by simp
  from finish_boolean_success [OF ok [unfolded eq']] fr show ?thesis
    unfolding eq' by (auto simp: nth_append)
qed



text \<open>
  Claim C4. When the mesh that \<^verbatim>\<open>boolean_operation\<close> would store (the value of
  \<^verbatim>\<open>result\<close> after the backends and the union fallback) has no vertex, the command
  returns a failure response and the registry binds the names it bound before. A scene
  without parts is not accepted as a result, no mesh without a vertex is accepted from a
  backend, and a command that succeeds has stored a mesh with a vertex.
\<close>

theorem empty_result_is_failure:
  assumes a: "hash_key (dict_get params ''mesh_a'' JNull) = Inr ka" "map_of (meshes s) ka = Some a"
      and b: "hash_key (dict_get params ''mesh_b'' JNull) = Inr kb" "map_of (meshes s) kb = Some b"
      and op: "operation = dict_get params ''operation'' (JStr ''union'')"
  shows "(\<forall>result s1.
            boolean_result L operation a b s = (Inr (Inr result), s1)
            \<and> vertices_count L result = 0 \<longrightarrow>
            boolean_operation L (JObj params) s =
              (failure ''Boolean operation resulted in empty mesh'', s1)
            \<and> meshes s1 = meshes s)
       \<and> normalize_result L (Scene []) = Inl (Exception ''Boolean operation produced empty scene'')
       \<and> (\<forall>result m. normalize_result L result = Inr m \<longrightarrow> vertices_count L m \<noteq> 0)
       \<and> (is_success (fst (boolean_operation L (JObj params) s)) \<longrightarrow>
            (\<exists>kr addr.
               hash_key (dict_get params ''result_id''
                 (auto_name ''result_'' (length (meshes s)))) = Inr kr
             \<and> map_of (meshes (snd (boolean_operation L (JObj params) s))) kr = Some addr
             \<and> vertices_count L (heap (snd (boolean_operation L (JObj params) s)) ! addr)
                   \<noteq> 0))"
proof (intro conjI allI impI)
  fix result s1
  assume h: "boolean_result L operation a b s = (Inr (Inr result), s1)
             \<and> vertices_count L result = 0"
  then show "boolean_operation L (JObj params) s =
               (failure ''Boolean operation resulted in empty mesh'', s1)"
    by (simp add: boolean_operation_found [OF a b] op [symmetric] finish_boolean_def)
  from h boolean_result_meshes show "meshes s1 = meshes s" by blast
next
  show "normalize_result L (Scene []) = Inl (Exception ''Boolean operation produced empty scene'')"
    by (simp add: normalize_result_def)
next
  fix result m
  assume "normalize_result L result = Inr m"
  then show "vertices_count L m \<noteq> 0" by (rule normalize_result_nonempty)
next
  assume "is_success (fst (boolean_operation L (JObj params) s))"
  from boolean_operation_success [OF this]
  show "\<exists>kr addr.
               hash_key (dict_get params ''result_id''
                 (auto_name ''result_'' (length (meshes s)))) = Inr kr
             \<and> map_of (meshes (snd (boolean_operation L (JObj params) s))) kr = Some addr
             \<and> vertices_count L (heap (snd (boolean_operation L (JObj params) s)) ! addr)
                   \<noteq> 0"
    by (auto simp: update_conv')
qed

theorem empty_result_is_failure_witness:
  "boolean_result trace_lib (JStr ''union'') 0 1 two_empty
     = (Inr (Inr (Traced 0 0 0 [])),
        \<lparr>heap = [Traced 0 0 0 [], Traced 0 0 0 []],
           meshes = [(KStr ''b'', 0), (KStr ''c'', 1)]\<rparr>)
   \<and> vertices_count trace_lib (Traced 0 0 0 []) = 0
   \<and> boolean_operation trace_lib (JObj (boolean_params ''union'')) two_empty
     = (failure ''Boolean operation resulted in empty mesh'',
        \<lparr>heap = [Traced 0 0 0 [], Traced 0 0 0 []],
           meshes = [(KStr ''b'', 0), (KStr ''c'', 1)]\<rparr>)
   \<and> is_success (fst (boolean_operation trace_lib (JObj (boolean_params ''union''))
                       box_and_sphere))"
proof -
  have a: "hash_key (dict_get (boolean_params ''union'') ''mesh_a'' JNull) = Inr (KStr ''b'')"
          "map_of (meshes two_empty) (KStr ''b'') = Some 0"
   and b: "hash_key (dict_get (boolean_params ''union'') ''mesh_b'' JNull) = Inr (KStr ''c'')"
          "map_of (meshes two_empty) (KStr ''c'') = Some 1"
   and op: "JStr ''union'' = dict_get (boolean_params ''union'') ''operation'' (JStr ''union'')"
    by (simp_all add: eval_defs)
  have r: "boolean_result trace_lib (JStr ''union'') 0 1 two_empty
     = (Inr (Inr (Traced 0 0 0 [])),
        \<lparr>heap = [Traced 0 0 0 [], Traced 0 0 0 []],
           meshes = [(KStr ''b'', 0), (KStr ''c'', 1)]\<rparr>)
     \<and> vertices_count trace_lib (Traced 0 0 0 []) = 0"
    by (simp add: eval_defs)
  have ok: "is_success (fst (boolean_operation trace_lib (JObj (boolean_params ''union''))
                       box_and_sphere))"
    by (simp add: eval_defs)
  from empty_result_is_failure [OF a b op, of trace_lib] r ok show ?thesis by blast
qed




subsection \<open>Storing under a name in use\<close>




subsection \<open>The invariant of the state\<close>

text \<open>\<open>wf\<close> holds of the empty state and is kept by every command.\<close>

lemma wf_init: "wf init_state"
  by (simp add: wf_def init_state_def)

lemma wf_grow: "wf s \<Longrightarrow> wf (s\<lparr>heap := heap s @ [m]\<rparr>)"
  by (auto simp: wf_def list_all_iff)

lemma wf_in_place: "in_place f a s = Inr s' \<Longrightarrow> wf s \<Longrightarrow> wf s'"
  by (auto simp: in_place_def wf_def split: sum.splits)

lemma list_all_update:
  "list_all P al \<Longrightarrow> P (k, a) \<Longrightarrow> list_all P (AList.update k a al)"
  by (induction al) auto

lemma wf_update:
  "wf s \<Longrightarrow> a < length (heap s) \<Longrightarrow> wf (s\<lparr>meshes := AList.update k a (meshes s)\<rparr>)"
  by (simp add: wf_def list_all_update distinct_update)

lemma list_all_delete: "list_all P al \<Longrightarrow> list_all P (AList.delete k al)"
  by (induction al) auto

lemma wf_delete: "wf s \<Longrightarrow> wf (s\<lparr>meshes := AList.delete k (meshes s)\<rparr>)"
  by (simp add: wf_def list_all_delete distinct_delete)

lemma wf_commit: "wf s \<Longrightarrow> a < length (heap s) \<Longrightarrow> wf (snd (commit L f name a s))"
  by (cases "hash_key name") (simp_all add: commit_hashable commit_unhashable wf_update)

lemma wf_commit_new:
  "wf s \<Longrightarrow> wf (snd (commit L f name (length (heap s)) (s\<lparr>heap := heap s @ [m]\<rparr>)))"
  by (rule wf_commit) (simp_all add: wf_grow)

lemma wf_boolean_attempt:
  "boolean_attempt L operation a b s = (x, s') \<Longrightarrow> wf s \<Longrightarrow> wf s'"
  by (auto simp: boolean_attempt_def split: sum.splits dest: wf_in_place)

lemma wf_boolean_result:
  "boolean_result L operation a b s = (x, s') \<Longrightarrow> wf s \<Longrightarrow> wf s'"
  by (auto simp: boolean_result_def split: prod.splits dest: wf_boolean_attempt)

lemma wf_finish_boolean: "wf s \<Longrightarrow> wf (snd (finish_boolean L name result s))"
  by (simp add: finish_boolean_def new_obj_def wf_commit_new)

lemma wf_create_primitive: "wf s \<Longrightarrow> wf (snd (create_primitive L params s))"
  by (auto simp: create_primitive_def with_params_def create_primitive_body_def Let_def
      new_obj_def in_place_new wf_grow wf_commit_new
      split: json.splits option.splits sum.splits)

lemma wf_extrude_mesh: "wf s \<Longrightarrow> wf (snd (extrude_mesh L params s))"
  by (auto simp: extrude_mesh_def with_params_def extrude_mesh_body_def Let_def
      new_obj_def wf_commit_new split: json.splits sum.splits)

lemma wf_create_complex_mesh: "wf s \<Longrightarrow> wf (snd (create_complex_mesh L params s))"
  by (auto simp: create_complex_mesh_def with_params_def create_complex_mesh_body_def Let_def
      new_obj_def wf_commit_new split: json.splits option.splits sum.splits)

lemma wf_bevel_mesh: "wf s \<Longrightarrow> wf (snd (bevel_mesh L params s))"
  by (auto simp: bevel_mesh_def with_params_def bevel_mesh_body_def Let_def not_found_def
      new_obj_def in_place_new wf_grow wf_commit_new split: json.splits sum.splits)

lemma wf_boolean_operation: "wf s \<Longrightarrow> wf (snd (boolean_operation L params s))"
  by (auto simp: boolean_operation_def with_params_def boolean_operation_body_def Let_def
      wf_finish_boolean split: json.splits sum.splits prod.splits dest: wf_boolean_result)

lemma wf_unchanged:
  "snd (get_mesh_info L params s) = s" "snd (export_mesh L params s) = s"
  "snd (save_mesh_file L params s) = s" "snd (list_meshes L s) = s"
  by (auto simp: get_mesh_info_def get_mesh_info_body_def export_mesh_def export_mesh_body_def
      save_mesh_file_def save_mesh_file_body_def list_meshes_def with_params_def Let_def
      not_found_def split: json.splits sum.splits)

lemma wf_delete_mesh: "wf s \<Longrightarrow> wf (snd (delete_mesh L params s))"
  by (auto simp: delete_mesh_def with_params_def delete_mesh_body_def Let_def not_found_def
      remove_def wf_delete split: json.splits sum.splits)

lemma wf_transform_mesh: "wf s \<Longrightarrow> wf (snd (transform_mesh L params s))"
proof (cases params)
  case (JObj p)
  assume wf: "wf s"
  show ?thesis
  proof (cases "hash_key (dict_get p ''mesh_id'' JNull)")
    case (Inl e)
    with wf JObj show ?thesis
      by (simp add: transform_mesh_def with_params_obj transform_mesh_body_def Let_def
          contains_def)
  next
    case (Inr k)
    show ?thesis
    proof (cases "map_of (meshes s) k")
      case None
      with wf JObj Inr show ?thesis
        by (simp add: transform_mesh_def with_params_obj transform_mesh_body_def Let_def
            contains_def not_found_def)
    next
      case (Some source)
      from transform_mesh_outcome [OF Inr Some, of L] wf JObj show ?thesis
        by (auto simp: wf_grow wf_commit_new)
    qed
  qed
qed (simp_all add: transform_mesh_def with_params_def)

lemma wf_process_command: "wf s \<Longrightarrow> wf (snd (process_command L data s))"
  by (simp add: process_command_def Let_def wf_create_primitive wf_boolean_operation
      wf_extrude_mesh wf_bevel_mesh wf_unchanged wf_delete_mesh wf_transform_mesh
      wf_create_complex_mesh)

lemma snd_run:
  "snd (run L (c # cs) s) = snd (run L cs (snd (process_command L c s)))"
  by (simp split: prod.splits)

lemma wf_run: "wf s \<Longrightarrow> wf (snd (run L commands s))"
  by (induction commands arbitrary: s) (simp_all add: snd_run wf_process_command del: run.simps(2))

subsection \<open>What a failed command leaves behind\<close>

text \<open>
  An object that no name is bound to does not show in the registry, so a handler that raises
  after it has built its mesh, and before it has stored it, leaves the registry as it was.
\<close>

lemma commit_new_atomic:
  assumes wf: "wf s"
      and bounds: "\<And>m. \<exists>b. bounds_tolist L m = Inr b"
      and fail: "\<not> is_success (fst (catch (commit L f name (length (heap s))
                                          (s\<lparr>heap := heap s @ [m]\<rparr>))))"
  shows "registry (snd (commit L f name (length (heap s)) (s\<lparr>heap := heap s @ [m]\<rparr>)))
           = registry s"
proof (cases "hash_key name")
  case (Inl e)
  with wf show ?thesis by (simp add: commit_unhashable registry_grow)
next
  case (Inr k)
  obtain b where "bounds_tolist L m = Inr b" using bounds by blast
  with fail Inr show ?thesis
    by (simp add: commit_hashable stats_response_def is_success_def)
qed

lemma process_leaves:
  assumes pure: "\<And>m m'. process L m = Inr m' \<Longrightarrow> m' = m"
  shows "in_place (process L) a s =
           (case process L (heap s ! a) of Inl e \<Rightarrow> Inl e | Inr m' \<Rightarrow> Inr s)"
proof (cases "process L (heap s ! a)")
  case (Inl e)
  then show ?thesis by (simp add: in_place_def)
next
  case (Inr m')
  with pure [OF Inr] show ?thesis by (simp add: in_place_def)
qed

lemma boolean_result_leaves:
  assumes pure: "\<And>m m'. process L m = Inr m' \<Longrightarrow> m' = m"
  shows "snd (boolean_result L operation a b s) = s"
  by (auto simp: boolean_result_def boolean_attempt_def process_leaves [OF pure]
      split: prod.splits sum.splits)

lemma create_primitive_atomic:
  assumes wf: "wf s" and bounds: "\<And>m. \<exists>b. bounds_tolist L m = Inr b"
      and fail: "\<not> is_success (fst (create_primitive L params s))"
  shows "registry (snd (create_primitive L params s)) = registry s"
  using fail
  by (auto simp: create_primitive_def with_params_def create_primitive_body_def Let_def
      new_obj_def in_place_new registry_grow [OF wf]
      split: json.splits option.splits sum.splits if_splits
      intro!: commit_new_atomic [OF wf bounds])

lemma extrude_mesh_atomic:
  assumes wf: "wf s" and bounds: "\<And>m. \<exists>b. bounds_tolist L m = Inr b"
      and fail: "\<not> is_success (fst (extrude_mesh L params s))"
  shows "registry (snd (extrude_mesh L params s)) = registry s"
  using fail
  by (auto simp: extrude_mesh_def with_params_def extrude_mesh_body_def Let_def
      new_obj_def split: json.splits sum.splits
      intro!: commit_new_atomic [OF wf bounds])

lemma create_complex_mesh_atomic:
  assumes wf: "wf s" and bounds: "\<And>m. \<exists>b. bounds_tolist L m = Inr b"
      and fail: "\<not> is_success (fst (create_complex_mesh L params s))"
  shows "registry (snd (create_complex_mesh L params s)) = registry s"
  using fail
  by (auto simp: create_complex_mesh_def with_params_def create_complex_mesh_body_def Let_def
      new_obj_def split: json.splits option.splits sum.splits
      intro!: commit_new_atomic [OF wf bounds])

lemma bevel_mesh_atomic:
  assumes wf: "wf s" and bounds: "\<And>m. \<exists>b. bounds_tolist L m = Inr b"
      and fail: "\<not> is_success (fst (bevel_mesh L params s))"
  shows "registry (snd (bevel_mesh L params s)) = registry s"
  using fail
  by (auto simp: bevel_mesh_def with_params_def bevel_mesh_body_def Let_def not_found_def
      new_obj_def in_place_new registry_grow [OF wf]
      split: json.splits sum.splits
      intro!: commit_new_atomic [OF wf bounds])

lemma transform_mesh_atomic:
  assumes wf: "wf s" and bounds: "\<And>m. \<exists>b. bounds_tolist L m = Inr b"
      and fail: "\<not> is_success (fst (transform_mesh L params s))"
  shows "registry (snd (transform_mesh L params s)) = registry s"
proof (cases params)
  case (JObj p)
  show ?thesis
  proof (cases "hash_key (dict_get p ''mesh_id'' JNull)")
    case (Inl e)
    with JObj show ?thesis
      by (simp add: transform_mesh_def with_params_obj transform_mesh_body_def Let_def
          contains_def)
  next
    case (Inr k)
    show ?thesis
    proof (cases "map_of (meshes s) k")
      case None
      with JObj Inr show ?thesis
        by (simp add: transform_mesh_def with_params_obj transform_mesh_body_def Let_def
            contains_def not_found_def)
    next
      case (Some source)
      from transform_mesh_outcome [OF Inr Some, of L] fail JObj show ?thesis
        by (auto simp: registry_grow [OF wf] intro!: commit_new_atomic [OF wf bounds])
    qed
  qed
qed (simp_all add: transform_mesh_def with_params_def)

lemma boolean_operation_atomic:
  assumes wf: "wf s" and bounds: "\<And>m. \<exists>b. bounds_tolist L m = Inr b"
      and pure: "\<And>m m'. process L m = Inr m' \<Longrightarrow> m' = m"
      and fail: "\<not> is_success (fst (boolean_operation L params s))"
  shows "registry (snd (boolean_operation L params s)) = registry s"
proof (cases params)
  case (JObj p)
  let ?op = "dict_get p ''operation'' (JStr ''union'')"
  have same: "boolean_result L ?op a b s = (x, s') \<Longrightarrow> s' = s" for a b x s'
    using boolean_result_leaves [of L ?op a b s, OF pure] by simp
  show ?thesis
    using fail JObj
    by (auto simp: boolean_operation_def with_params_def boolean_operation_body_def Let_def
        finish_boolean_def new_obj_def
        split: sum.splits prod.splits if_splits
        dest!: same intro!: commit_new_atomic [OF wf bounds])
qed (simp_all add: boolean_operation_def with_params_def)

lemma delete_mesh_atomic:
  "\<not> is_success (fst (delete_mesh L params s)) \<Longrightarrow> snd (delete_mesh L params s) = s"
  by (auto simp: delete_mesh_def with_params_def delete_mesh_body_def Let_def not_found_def
      remove_def is_success_def split: json.splits sum.splits)

text \<open>
  With a library whose \<^verbatim>\<open>process\<close> leaves a mesh as it is and whose bounds always exist,
  every command that returns a failure leaves the registry as it was, names and contents.
\<close>

lemma failed_command_leaves_registry:
  assumes wf: "wf s"
      and bounds: "\<And>m. \<exists>b. bounds_tolist L m = Inr b"
      and pure: "\<And>m m'. process L m = Inr m' \<Longrightarrow> m' = m"
      and fail: "\<not> is_success (fst (process_command L data s))"
  shows "registry (snd (process_command L data s)) = registry s"
  using fail
  by (auto simp: process_command_def Let_def wf_unchanged
      create_primitive_atomic [OF wf bounds] extrude_mesh_atomic [OF wf bounds]
      create_complex_mesh_atomic [OF wf bounds] bevel_mesh_atomic [OF wf bounds]
      transform_mesh_atomic [OF wf bounds] boolean_operation_atomic [OF wf bounds pure]
      delete_mesh_atomic split: if_splits)

text \<open>
  Claim C2 says that a command that returns a failure leaves the registry as it was, the
  contents of the stored meshes included, and so the operands of a failed
  \<^verbatim>\<open>boolean_operation\<close>. The code breaks it in two ways. In \<open>bevel_session\<close> the
  difference returns a failure, and the beveled mesh in the registry has lost its repeated
  vertices (24 vertices before the command, 8 after): \<^verbatim>\<open>process\<close> is called on the
  stored objects themselves (lines 161 and 162), where \<^verbatim>\<open>transform_mesh\<close> first takes
  a copy (line 377). And a mesh is bound in the registry before its response is built
  (lines 126, 279, 309, 350, 410 and 470): the torus without faces has no bounds, the
  response is a failure, and the torus is in the registry.
\<close>

theorem failure_after_mutation:
  "registry (snd (run trace_lib (take 2 bevel_session) init_state))
     = [(KStr ''b'', Traced 8 0 12 []),
        (KStr ''beveled_b'', Traced 8 16 12 [Transform (uniform_scale (9 / 10))])]
   \<and> \<not> is_success (last (fst (run trace_lib bevel_session init_state)))
   \<and> registry (snd (run trace_lib bevel_session init_state))
     = [(KStr ''b'', Traced 8 0 12 []),
        (KStr ''beveled_b'', Traced 8 0 12 [Transform (uniform_scale (9 / 10))])]
   \<and> \<not> is_success (fst (process_command trace_lib thin_torus init_state))
   \<and> registry init_state = ([] :: (key \<times> traced) list)
   \<and> registry (snd (process_command trace_lib thin_torus init_state))
     = [(KStr ''complex_0'', Traced 16 0 0 [])]"
  by (simp add: handler_defs example_defs str_nat_digit digit_char_def scale_upper3_def
      eye4_def uniform_scale_def)

end
